theory Spec2Isabelle
  imports Complex_Main
begin

section \<open>Strings\<close>

text \<open>
  A JavaScript string is modelled by the bytes of its UTF-8 encoding, as a \<^typ>\<open>string\<close>
  (a surrogate that stands alone by its three-byte form). An ASCII character is one
  byte, and no byte of a longer character is an ASCII byte.
\<close>

definition nl :: string where
  "nl = [CHR 0x0A]"

definition dq :: string where
  "dq = [CHR 0x22]"

definition sq :: string where
  "sq = [CHR 0x27]"

definition startsWith :: "string \<Rightarrow> string \<Rightarrow> bool" where
  "startsWith s p = (take (length p) s = p)"

definition array_includes :: "'a list \<Rightarrow> 'a \<Rightarrow> bool" where
  "array_includes xs x = (x \<in> set xs)"

text \<open>Template-literal rendering of a non-negative integer such as \<open>codeFiles.length\<close>.\<close>

fun decimal :: "nat \<Rightarrow> string" where
  "decimal n =
     (if n < 10 then [char_of (48 + n)]
      else decimal (n div 10) @ [char_of (48 + n mod 10)])"

text \<open>
  \<open>String.prototype.trim\<close> removes white space and line terminators from both ends.
  These are the characters U+0009 to U+000D, U+0020, U+00A0, U+1680, U+2000 to U+200A,
  U+2028, U+2029, U+202F, U+205F, U+3000 and U+FEFF, here by their encodings.
\<close>

definition whiteSpace :: "string list" where
  "whiteSpace =
     map (map char_of)
       ([[9], [10], [11], [12], [13], [32], [194, 160], [225, 154, 128]]
        @ map (\<lambda>b. [226, 128, b]) [128 ..< 139]
        @ [[226, 128, 168], [226, 128, 169], [226, 128, 175], [226, 129, 159],
           [227, 128, 128], [239, 187, 191 :: nat]])"

text \<open>Remove from the front of \<open>s\<close> every leading occurrence of one of the sequences \<open>ws\<close>.\<close>

function stripLeading :: "string list \<Rightarrow> string \<Rightarrow> string" where
  "stripLeading ws s =
     (case find (startsWith s) ws of
        None \<Rightarrow> s
      | Some w \<Rightarrow> if w = [] then s else stripLeading ws (drop (length w) s))"
  by pat_completeness auto
termination
proof (relation "measure (\<lambda>(ws, s). length s)")
  show "wf (measure (\<lambda>(ws, s). length s))" by simp
next
  fix ws :: "string list" and s w :: string
  assume f: "find (startsWith s) ws = Some w" and w: "w \<noteq> []"
  from f have "startsWith s w" by (auto simp: find_Some_iff)
  with w have "s \<noteq> []" by (auto simp: startsWith_def)
  with w show "((ws, drop (length w) s), (ws, s)) \<in> measure (\<lambda>(ws, s). length s)"
    by (cases w) auto
qed

declare stripLeading.simps [simp del]

definition trim :: "string \<Rightarrow> string" where
  "trim s = rev (stripLeading (map rev whiteSpace) (rev (stripLeading whiteSpace s)))"

text \<open>
  \<open>String.prototype.toLowerCase\<close> on the ASCII letters. The lower case of a character
  outside ASCII is outside ASCII too, but for U+212A, whose lower case \<open>k\<close> is in no code
  extension; so the test of \<open>isCodeFile\<close> against the ASCII extensions is the source's.
\<close>

definition toLowerChar :: "char \<Rightarrow> char" where
  "toLowerChar c =
     (let n = (of_char c :: nat) in
      if 65 \<le> n \<and> n \<le> 90 then char_of (n + 32) else c)"

definition toLowerCase :: "string \<Rightarrow> string" where
  "toLowerCase s = map toLowerChar s"

fun intercalate :: "string \<Rightarrow> string list \<Rightarrow> string" where
  "intercalate sep [] = []"
| "intercalate sep [x] = x"
| "intercalate sep (x # y # ys) = x @ sep @ intercalate sep (y # ys)"

text \<open>\<open>s.split(c)\<close> for a one-character separator.\<close>

fun splitOn :: "char \<Rightarrow> string \<Rightarrow> string list" where
  "splitOn c [] = [[]]"
| "splitOn c (x # xs) =
     (if x = c then [] # splitOn c xs
      else (case splitOn c xs of [] \<Rightarrow> [[x]] | w # ws \<Rightarrow> (x # w) # ws))"


section \<open>Errors\<close>

datatype ErrorCode = InvalidParams | InternalError | MethodNotFound

text \<open>\<open>new Error(message)\<close> and \<open>new McpError(code, message)\<close>.\<close>

datatype js_error = Error string

datatype mcp_error = McpError ErrorCode string

fun message :: "js_error \<Rightarrow> string" where
  "message (Error m) = m"


section \<open>Values parsed from JSON\<close>

text \<open>
  What \<open>JSON.parse\<close> returns. \<open>undefined\<close> is \<open>None\<close> of \<^typ>\<open>'a option\<close>.
  Numbers are exact rationals; only comparisons and the test against zero are used.
\<close>

datatype json =
    JNull
  | JBool bool
  | JNum rat
  | JStr string
  | JArr "json list"
  | JObj "(string \<times> json) list"

fun truthy :: "json option \<Rightarrow> bool" where
  "truthy None = False"
| "truthy (Some JNull) = False"
| "truthy (Some (JBool b)) = b"
| "truthy (Some (JNum n)) = (n \<noteq> 0)"
| "truthy (Some (JStr s)) = (s \<noteq> [])"
| "truthy (Some (JArr _)) = True"
| "truthy (Some (JObj _)) = True"

text \<open>
  Property read \<open>v.k\<close> on a value that is neither \<open>null\<close> nor \<open>undefined\<close>, for the
  property names the program reads (none of them is inherited from a prototype).
\<close>

fun getProp :: "json \<Rightarrow> string \<Rightarrow> json option" where
  "getProp (JObj kvs) k = map_of kvs k"
| "getProp _ k = None"

text \<open>\<open>a || b\<close> with \<open>b\<close> a defined value.\<close>

definition orElse :: "json option \<Rightarrow> json \<Rightarrow> json" where
  "orElse a b = (if truthy a then the a else b)"

text \<open>\<open>v?.k\<close>: \<open>undefined\<close> when \<open>v\<close> is \<open>null\<close> or \<open>undefined\<close>.\<close>

fun optChain :: "json option \<Rightarrow> string \<Rightarrow> json option" where
  "optChain None k = None"
| "optChain (Some JNull) k = None"
| "optChain (Some v) k = getProp v k"

text \<open>
  The \<open>length\<close> of a string, in UTF-16 code units: one for each character, and one more
  for each character of four bytes.
\<close>

definition stringLength :: "string \<Rightarrow> nat" where
  "stringLength s =
     length (filter (\<lambda>c. (of_char c :: nat) < 128 \<or> 192 \<le> (of_char c :: nat)) s)
       + length (filter (\<lambda>c. 240 \<le> (of_char c :: nat)) s)"

text \<open>\<open>Object.keys(v || {}).length\<close>.\<close>

fun objectKeysLength :: "json option \<Rightarrow> nat" where
  "objectKeysLength (Some (JObj kvs)) = length (remdups (map fst kvs))"
| "objectKeysLength (Some (JArr xs)) = length xs"
| "objectKeysLength (Some (JStr s)) = stringLength s"
| "objectKeysLength _ = 0"


section \<open>Paths and the file tree\<close>

text \<open>
  An absolute path is the list of its segments. \<open>path.join\<close> concatenates with the
  separator and normalises: empty and \<open>.\<close> segments vanish, \<open>..\<close> removes the segment
  before it (and stays at the root). The result keeps a trailing separator when the
  joined string ends with one and the normalised path is not the root.
\<close>

type_synonym path = "string list"

definition normalizeStep :: "path \<Rightarrow> string \<Rightarrow> path" where
  "normalizeStep acc seg =
     (if seg = [] \<or> seg = ''.'' then acc
      else if seg = ''..'' then butlast acc
      else acc @ [seg])"

definition normalize :: "path \<Rightarrow> path" where
  "normalize segs = foldl normalizeStep [] segs"

definition path_join :: "path \<Rightarrow> string \<Rightarrow> path \<times> bool" where
  "path_join base rel =
     (let segs = normalize (base @ (if rel = [] then [] else splitOn (CHR ''/'') rel))
      in (segs, rel \<noteq> [] \<and> last rel = CHR ''/'' \<and> segs \<noteq> []))"

text \<open>\<open>path.relative(from, to)\<close> on normalised absolute paths.\<close>

fun commonPrefixLength :: "path \<Rightarrow> path \<Rightarrow> nat" where
  "commonPrefixLength (x # xs) (y # ys) = (if x = y then Suc (commonPrefixLength xs ys) else 0)"
| "commonPrefixLength _ _ = 0"

definition path_relative :: "path \<Rightarrow> path \<Rightarrow> string" where
  "path_relative from_path to_path =
     (let k = commonPrefixLength from_path to_path
      in intercalate ''/'' (replicate (length from_path - k) ''..'' @ drop k to_path))"

text \<open>\<open>path.extname\<close> of a base name.\<close>

definition lastDot :: "string \<Rightarrow> nat option" where
  "lastDot s =
     (case filter (\<lambda>i. s ! i = CHR ''.'') (rev [0 ..< length s]) of
        [] \<Rightarrow> None | i # _ \<Rightarrow> Some i)"

definition extname :: "string \<Rightarrow> string" where
  "extname fileName =
     (case lastDot fileName of
        None \<Rightarrow> []
      | Some d \<Rightarrow> if d = 0 \<or> fileName = ''..'' then [] else drop d fileName)"

text \<open>
  The file tree. A regular file carries what \<open>readFileSync(_, 'utf8')\<close> yields (\<open>Inl\<close> the
  message of the exception); a directory carries its entries in \<open>readdirSync\<close> order.
  \<open>UnreadableDir\<close> is a directory whose listing fails, \<open>Special\<close> an entry that is neither
  file nor directory, \<open>Unstatable\<close> an entry on which \<open>statSync\<close> throws.
\<close>

datatype node =
    RegularFile "string + string"
  | Dir "(string \<times> node) list"
  | UnreadableDir
  | Special
  | Unstatable

fun isDirectory :: "node \<Rightarrow> bool" where
  "isDirectory (Dir _) = True"
| "isDirectory UnreadableDir = True"
| "isDirectory _ = False"

fun isFile :: "node \<Rightarrow> bool" where
  "isFile (RegularFile _) = True"
| "isFile _ = False"

fun readFileSync :: "node \<Rightarrow> string + string" where
  "readFileSync (RegularFile r) = r"
| "readFileSync _ = Inl ''EISDIR: illegal operation on a directory, read''"

fun lookup :: "path \<Rightarrow> node \<Rightarrow> node option" where
  "lookup [] n = Some n"
| "lookup (s # ss) (Dir items) =
     (case map_of items s of None \<Rightarrow> None | Some c \<Rightarrow> lookup ss c)"
| "lookup (s # ss) _ = None"

text \<open>What \<open>statSync\<close> sees at a joined path; \<open>None\<close> when it throws.\<close>

definition resolve :: "node \<Rightarrow> path \<times> bool \<Rightarrow> node option" where
  "resolve fs p =
     (case lookup (fst p) fs of
        None \<Rightarrow> None
      | Some n \<Rightarrow>
          if n = Unstatable then None
          else if snd p \<and> \<not> isDirectory n then None
          else Some n)"

definition existsSync :: "node \<Rightarrow> path \<times> bool \<Rightarrow> bool" where
  "existsSync fs p = (resolve fs p \<noteq> None)"

text \<open>\<open>fs.rmSync(p, {recursive: true})\<close>. Removing the root is modelled as a failure.\<close>

fun remove_at :: "path \<Rightarrow> node \<Rightarrow> node" where
  "remove_at [] n = n"
| "remove_at [s] (Dir items) = Dir (filter (\<lambda>(k, c). k \<noteq> s) items)"
| "remove_at (s # s' # ss) (Dir items) =
     Dir (map (\<lambda>(k, c). if k = s then (k, remove_at (s' # ss) c) else (k, c)) items)"
| "remove_at (s # ss) n = n"

definition rmSync :: "path \<Rightarrow> node \<Rightarrow> string + node" where
  "rmSync p fs =
     (if p = [] then Inl ''EBUSY: resource busy or locked, rmdir''
      else Inr (remove_at p fs))"

text \<open>\<open>fs.mkdirSync(p, {recursive: true})\<close>.\<close>

fun newDirs :: "path \<Rightarrow> node" where
  "newDirs [] = Dir []"
| "newDirs (s # ss) = Dir [(s, newDirs ss)]"

fun mkdirSync :: "path \<Rightarrow> node \<Rightarrow> string + node" where
  "mkdirSync [] n =
     (if isDirectory n then Inr n else Inl ''EEXIST: file already exists, mkdir'')"
| "mkdirSync (s # ss) (Dir items) =
     (case map_of items s of
        None \<Rightarrow> Inr (Dir (items @ [(s, newDirs ss)]))
      | Some c \<Rightarrow>
          (case mkdirSync ss c of
             Inl e \<Rightarrow> Inl e
           | Inr c' \<Rightarrow> Inr (Dir (map (\<lambda>(k, x). if k = s then (k, c') else (k, x)) items))))"
| "mkdirSync (s # ss) n = Inl ''ENOTDIR: not a directory, mkdir''"

text \<open>Replace the entries of the directory at \<open>p\<close>, as a write below \<open>p\<close> does.\<close>

fun modify_at :: "path \<Rightarrow> ((string \<times> node) list \<Rightarrow> (string \<times> node) list) \<Rightarrow> node \<Rightarrow> node" where
  "modify_at [] f (Dir items) = Dir (f items)"
| "modify_at (s # ss) f (Dir items) =
     Dir (map (\<lambda>(k, c). if k = s then (k, modify_at ss f c) else (k, c)) items)"
| "modify_at p f n = n"


section \<open>TreeWalker: getAllFiles and findCodeFiles\<close>

definition codeExtensions :: "string list" where
  "codeExtensions = [''.js'', ''.ts'', ''.jsx'', ''.tsx'', ''.mjs'', ''.cjs'', ''.json'']"

definition skipDirs :: "string list" where
  "skipDirs = [''.git'', ''.svn'', ''.hg'', ''node_modules'', ''.DS_Store'', ''__pycache__'']"

definition shouldSkipDirectory :: "string \<Rightarrow> bool" where
  "shouldSkipDirectory dirName = (startsWith dirName ''.'' \<or> array_includes skipDirs dirName)"

definition isCodeFile :: "string \<Rightarrow> bool" where
  "isCodeFile fileName = (let ext = toLowerCase (extname fileName) in array_includes codeExtensions ext)"

text \<open>
  The inner \<open>walk\<close> of \<open>getAllFiles\<close>. \<open>readdirSync\<close> yields plain entry names, so
  \<open>path.join(currentDir, item)\<close> is \<open>currentDir\<close> extended by \<open>item\<close>. The pushes onto
  \<open>files\<close> are the returned list, in order.
\<close>

fun getAllFiles_walk :: "path \<Rightarrow> node \<Rightarrow> path list" where
  "getAllFiles_walk currentDir (Dir items) =
     concat (map (\<lambda>(item, n).
        (let fullPath = currentDir @ [item] in
         if n = Unstatable then []
         else if isDirectory n \<and> \<not> startsWith item ''.'' then getAllFiles_walk fullPath n
         else if isFile n then [fullPath]
         else [])) items)"
| "getAllFiles_walk currentDir n = []"

definition getAllFiles :: "node \<Rightarrow> path \<Rightarrow> path list" where
  "getAllFiles fs dir =
     (case lookup dir fs of None \<Rightarrow> [] | Some n \<Rightarrow> getAllFiles_walk dir n)"

record CodeFile =
  path :: path
  content :: string

fun findCodeFiles_walk :: "path \<Rightarrow> node \<Rightarrow> CodeFile list" where
  "findCodeFiles_walk currentDir (Dir items) =
     concat (map (\<lambda>(item, n).
        (let fullPath = currentDir @ [item] in
         if n = Unstatable then []
         else if isDirectory n \<and> \<not> shouldSkipDirectory item then findCodeFiles_walk fullPath n
         else if isFile n \<and> isCodeFile item then
           (case readFileSync n of
              Inl e \<Rightarrow> []
            | Inr text \<Rightarrow> [\<lparr>path = fullPath, content = text\<rparr>])
         else [])) items)"
| "findCodeFiles_walk currentDir n = []"

definition findCodeFiles :: "node \<Rightarrow> path \<Rightarrow> CodeFile list" where
  "findCodeFiles fs dir =
     (case lookup dir fs of None \<Rightarrow> [] | Some n \<Rightarrow> findCodeFiles_walk dir n)"


section \<open>CodeSelector: getSpecificFile and getAllCodeFiles\<close>

definition getSpecificFile :: "node \<Rightarrow> path \<Rightarrow> string \<Rightarrow> js_error + string" where
  "getSpecificFile fs extractedPath filePath =
     (let fullFilePath = path_join extractedPath filePath in
      if \<not> existsSync fs fullFilePath then Inl (Error (''File not found: '' @ filePath))
      else
        (case resolve fs fullFilePath of
           None \<Rightarrow> Inl (Error ''ENOENT: no such file or directory, stat'')
         | Some stats \<Rightarrow>
             if \<not> isFile stats then Inl (Error (''Path is not a file: '' @ filePath))
             else
               (case readFileSync stats of
                  Inl msg \<Rightarrow> Inl (Error (''Failed to read file '' @ filePath @ '': '' @ msg))
                | Inr text \<Rightarrow> Inr (''File: '' @ filePath @ nl @ nl @ text))))"

text \<open>
  \<open>getAllCodeFiles\<close> builds one text. \<open>toString\<close> is the conversion a template literal
  applies to a value of the metadata (a parameter: it is the runtime's).
\<close>

definition maxFiles :: nat where
  "maxFiles = 20"

definition fileSection :: "path \<Rightarrow> CodeFile \<Rightarrow> string" where
  "fileSection extractedPath file =
     (let relativePath = path_relative extractedPath (path file)
      in ''=== '' @ relativePath @ '' ==='' @ nl @ content file @ nl @ nl)"

definition getAllCodeFiles :: "(json option \<Rightarrow> string) \<Rightarrow> node \<Rightarrow> path \<Rightarrow> json \<Rightarrow> string" where
  "getAllCodeFiles toString fs extractedPath packageInfo =
     (let codeFiles = findCodeFiles fs extractedPath;
          allContent = ''Package: '' @ toString (getProp packageInfo ''name'') @ ''@''
                         @ toString (getProp packageInfo ''version'') @ nl;
          allContent = allContent @ ''Description: ''
                         @ toString (Some (orElse (getProp packageInfo ''description'') (JStr ''No description''))) @ nl;
          allContent = allContent @ ''Code files found: '' @ decimal (length codeFiles) @ nl @ nl;
          filesToShow = take maxFiles codeFiles;
          allContent = foldl (\<lambda>acc file. acc @ fileSection extractedPath file) allContent filesToShow;
          allContent =
            (if length codeFiles > maxFiles then
               allContent @ ''... and '' @ decimal (length codeFiles - maxFiles) @ '' more files'' @ nl
                 @ ''Use the '' @ sq @ ''list_package_files'' @ sq
                 @ '' tool to see all files, then fetch specific files as needed.'' @ nl
             else allContent)
      in allContent)"


section \<open>RegistryClient: fetchPackageInfo and getPackageInfo\<close>

text \<open>
  The outcome of one HTTPS GET whose body is read to its end: a transport error, the
  timeout, or the body. \<open>JSON.parse\<close>, \<open>encodeURIComponent\<close> and the network are parameters.
\<close>

datatype response = RequestError string | RequestTimeout | Body string

text \<open>Property read \<open>v.k\<close>; it throws a TypeError on \<open>null\<close> and \<open>undefined\<close>.\<close>

fun readProp :: "json option \<Rightarrow> string \<Rightarrow> string + json option" where
  "readProp None k = Inl (''Cannot read properties of undefined (reading '' @ sq @ k @ sq @ '')'')"
| "readProp (Some JNull) k = Inl (''Cannot read properties of null (reading '' @ sq @ k @ sq @ '')'')"
| "readProp (Some v) k = Inr (getProp v k)"

definition registryUrl :: "(string \<Rightarrow> string) \<Rightarrow> string \<Rightarrow> string option \<Rightarrow> string" where
  "registryUrl encodeURIComponent packageName version =
     (case version of
        None \<Rightarrow> ''https://registry.npmjs.org/'' @ encodeURIComponent packageName @ ''/latest''
      | Some v \<Rightarrow>
          if v \<noteq> [] then ''https://registry.npmjs.org/'' @ encodeURIComponent packageName @ ''/''
                            @ encodeURIComponent v
          else ''https://registry.npmjs.org/'' @ encodeURIComponent packageName @ ''/latest'')"

definition checkPackageInfo :: "json \<Rightarrow> js_error + json" where
  "checkPackageInfo packageInfo =
     (case readProp (Some packageInfo) ''dist'' of
        Inl msg \<Rightarrow> Inl (Error (''Invalid JSON response: '' @ msg))
      | Inr dist_value \<Rightarrow>
          if \<not> truthy dist_value then Inl (Error ''Invalid package info: missing tarball URL'')
          else
            (case readProp dist_value ''tarball'' of
               Inl msg \<Rightarrow> Inl (Error (''Invalid JSON response: '' @ msg))
             | Inr tarball \<Rightarrow>
                 if \<not> truthy tarball then Inl (Error ''Invalid package info: missing tarball URL'')
                 else Inr packageInfo))"

definition fetchPackageInfo ::
  "(string \<Rightarrow> string + json) \<Rightarrow> (string \<Rightarrow> string) \<Rightarrow> (string \<Rightarrow> response) \<Rightarrow>
   string \<Rightarrow> string option \<Rightarrow> js_error + json" where
  "fetchPackageInfo JSON_parse encodeURIComponent https_get packageName version =
     (let url = registryUrl encodeURIComponent packageName version in
      case https_get url of
        RequestError msg \<Rightarrow> Inl (Error (''HTTP request failed: '' @ msg))
      | RequestTimeout \<Rightarrow> Inl (Error ''Request timeout'')
      | Body data \<Rightarrow>
          (case JSON_parse data of
             Inl msg \<Rightarrow> Inl (Error (''Invalid JSON response: '' @ msg))
           | Inr packageInfo \<Rightarrow> checkPackageInfo packageInfo))"

text \<open>
  The object literal \<open>info\<close> of \<open>getPackageInfo\<close>, property by property; a property whose
  value is \<open>undefined\<close> carries \<open>None\<close>. Reading \<open>packageInfo.dist.tarball\<close> throws when
  \<open>dist\<close> is absent.
\<close>

definition getPackageInfo_info :: "json \<Rightarrow> string + (string \<times> json option) list" where
  "getPackageInfo_info packageInfo =
     (case readProp (getProp packageInfo ''dist'') ''tarball'' of
        Inl msg \<Rightarrow> Inl msg
      | Inr tarball \<Rightarrow>
          (case readProp (getProp packageInfo ''dist'') ''shasum'' of
             Inl msg \<Rightarrow> Inl msg
           | Inr shasum \<Rightarrow>
               Inr [(''name'', getProp packageInfo ''name''),
                    (''version'', getProp packageInfo ''version''),
                    (''description'',
                       Some (orElse (getProp packageInfo ''description'') (JStr ''No description available''))),
                    (''main'', Some (orElse (getProp packageInfo ''main'') (JStr ''Not specified''))),
                    (''types'', Some (orElse (getProp packageInfo ''types'') (JStr ''Not specified''))),
                    (''keywords'', Some (orElse (getProp packageInfo ''keywords'') (JArr []))),
                    (''author'', Some (orElse (getProp packageInfo ''author'') (JStr ''Not specified''))),
                    (''license'', Some (orElse (getProp packageInfo ''license'') (JStr ''Not specified''))),
                    (''homepage'', Some (orElse (getProp packageInfo ''homepage'') (JStr ''Not specified''))),
                    (''repository'',
                       Some (orElse (optChain (getProp packageInfo ''repository'') ''url'')
                               (JStr ''Not specified''))),
                    (''tarball'', tarball),
                    (''shasum'', shasum),
                    (''dependencies'',
                       Some (JNum (of_nat (objectKeysLength (getProp packageInfo ''dependencies''))))),
                    (''devDependencies'',
                       Some (JNum (of_nat (objectKeysLength (getProp packageInfo ''devDependencies'')))))]))"

definition getPackageInfo ::
  "(string \<Rightarrow> string + json) \<Rightarrow> ((string \<times> json option) list \<Rightarrow> string) \<Rightarrow>
   (string \<Rightarrow> string) \<Rightarrow> (string \<Rightarrow> response) \<Rightarrow>
   json option \<Rightarrow> string option \<Rightarrow> mcp_error + string" where
  "getPackageInfo JSON_parse JSON_stringify encodeURIComponent https_get packageName version =
     (case packageName of
        Some (JStr pn) \<Rightarrow>
          if pn = [] then Inl (McpError InvalidParams ''packageName is required and must be a string'')
          else
            (case fetchPackageInfo JSON_parse encodeURIComponent https_get pn version of
               Inl e \<Rightarrow> Inl (McpError InternalError (''Failed to get package info: '' @ message e))
             | Inr packageInfo \<Rightarrow>
                 (case getPackageInfo_info packageInfo of
                    Inl msg \<Rightarrow> Inl (McpError InternalError (''Failed to get package info: '' @ msg))
                  | Inr info \<Rightarrow> Inr (''Package Information:'' @ nl @ JSON_stringify info)))
      | _ \<Rightarrow> Inl (McpError InvalidParams ''packageName is required and must be a string''))"


section \<open>ArchiveFetcher: downloadAndExtract\<close>

definition sanitizedName :: "string \<Rightarrow> string" where
  "sanitizedName packageName =
     map (\<lambda>c. if c = CHR ''@'' \<or> c = CHR ''/'' then CHR ''_'' else c) packageName"

text \<open>
  The outcome of the download: a transport error, the timeout before any response, or a
  response with its status code, the archive unpacked until the pipeline stopped, and how
  it stopped. \<open>tar_extract\<close> is the unpacking library with \<open>strip: 1\<close>, a parameter: it maps
  the entries of the directory \<open>cwd\<close> to its entries after unpacking and writes nowhere else.
\<close>

datatype stream_end = End | ExtractError string | GunzipError string | TimedOut

datatype 'a download = DownloadError string | DownloadTimeout | Response nat 'a stream_end

definition extractPath :: "path \<Rightarrow> string \<Rightarrow> path \<times> bool" where
  "extractPath tempDir packageName = path_join tempDir (sanitizedName packageName)"

definition downloadAndExtract ::
  "('a \<Rightarrow> (string \<times> node) list \<Rightarrow> (string \<times> node) list) \<Rightarrow> (string \<Rightarrow> 'a download) \<Rightarrow>
   path \<Rightarrow> string \<Rightarrow> string \<Rightarrow> node \<Rightarrow> (js_error + path) \<times> node" where
  "downloadAndExtract tar_extract https_get tempDir tarballUrl packageName fs =
     (let ep = extractPath tempDir packageName in
      case (if existsSync fs ep then rmSync (fst ep) fs else Inr fs) of
        Inl e \<Rightarrow> (Inl (Error e), fs)
      | Inr fs1 \<Rightarrow>
          (case mkdirSync (fst ep) fs1 of
             Inl e \<Rightarrow> (Inl (Error e), fs1)
           | Inr fs2 \<Rightarrow>
               (case https_get tarballUrl of
                  DownloadError msg \<Rightarrow> (Inl (Error (''Download failed: '' @ msg)), fs2)
                | DownloadTimeout \<Rightarrow> (Inl (Error ''Download timeout''), fs2)
                | Response statusCode archive fin \<Rightarrow>
                    if statusCode \<noteq> 200 then
                      (Inl (Error (''HTTP '' @ decimal statusCode @ '': Failed to download tarball'')), fs2)
                    else
                      (let fs3 = modify_at (fst ep) (tar_extract archive) fs2 in
                       case fin of
                         End \<Rightarrow> (Inr (fst ep), fs3)
                       | ExtractError msg \<Rightarrow> (Inl (Error (''Extraction failed: '' @ msg)), fs3)
                       | GunzipError msg \<Rightarrow> (Inl (Error (''Decompression failed: '' @ msg)), fs3)
                       | TimedOut \<Rightarrow> (Inl (Error ''Download timeout''), fs3)))))"

text \<open>The entries of the sandbox directory that a download leaves when it starts empty.\<close>

definition unpacked ::
  "('a \<Rightarrow> (string \<times> node) list \<Rightarrow> (string \<times> node) list) \<Rightarrow> 'a download \<Rightarrow> (string \<times> node) list" where
  "unpacked tar_extract d =
     (case d of
        Response statusCode archive fin \<Rightarrow> if statusCode = 200 then tar_extract archive [] else []
      | _ \<Rightarrow> [])"


section \<open>RegistryClient: search\<close>

text \<open>
  The search reply as the interface \<open>SearchResponse\<close> declares it (the fields the program
  reads). The platform's part is a parameter: \<open>JSON.parse\<close> at the declared type, number
  formatting, date formatting, and \<open>Array.prototype.sort\<close> with the heuristic comparator
  (floating point).
\<close>

datatype author = AuthorName string | AuthorObject string "string option"

record links =
  npm :: string
  homepage :: "string option"
  repository :: "string option"

record SearchResult =
  name :: string
  version :: string
  description :: "string option"
  keywordList :: "string list option"
  author :: "author option"
  date :: string
  links :: links

record score_detail =
  quality :: rat
  popularity :: rat
  maintenance :: rat

record score =
  final :: rat
  detail :: score_detail

record search_object =
  package :: SearchResult
  score :: score

record SearchResponse =
  objects :: "search_object list"
  total :: rat
  time :: string

record platform =
  JSON_parse_search :: "string \<Rightarrow> string + SearchResponse"
  numberToString :: "rat \<Rightarrow> string"
  percentToFixed1 :: "rat \<Rightarrow> string"
  toLocaleDateString :: "string \<Rightarrow> string"
  sortByHeuristic :: "SearchResult list \<Rightarrow> SearchResult list"

text \<open>
  The network: a search call is the triple of its arguments; the registry answers a call
  knowing the calls made before it. The log of calls is threaded through every function
  that can reach the network.
\<close>

type_synonym search_call = "string \<times> rat \<times> rat"

type_synonym registry = "search_call list \<Rightarrow> search_call \<Rightarrow> response"

definition performPackageSearch ::
  "platform \<Rightarrow> registry \<Rightarrow> string \<Rightarrow> rat \<Rightarrow> rat \<Rightarrow> search_call list \<Rightarrow>
   (js_error + SearchResponse) \<times> search_call list" where
  "performPackageSearch pf reg query size_arg from_arg calls =
     (let call = (query, size_arg, from_arg);
          result =
            (case reg calls call of
               RequestError msg \<Rightarrow> Inl (Error (''HTTP request failed: '' @ msg))
             | RequestTimeout \<Rightarrow> Inl (Error ''Search request timeout'')
             | Body data \<Rightarrow>
                 (case JSON_parse_search pf data of
                    Inl msg \<Rightarrow> Inl (Error (''Invalid JSON response: '' @ msg))
                  | Inr searchResults \<Rightarrow> Inr searchResults))
      in (result, calls @ [call]))"

definition authorName :: "SearchResult \<Rightarrow> string option" where
  "authorName pkg =
     (case author pkg of
        None \<Rightarrow> None
      | Some (AuthorName s) \<Rightarrow> Some s
      | Some (AuthorObject n e) \<Rightarrow> Some n)"

definition nonEmpty :: "string option \<Rightarrow> bool" where
  "nonEmpty s = (case s of None \<Rightarrow> False | Some t \<Rightarrow> t \<noteq> [])"

definition packageMarker :: string where
  "packageMarker = map char_of [195, 176, 197, 184, 226, 128, 156, 194, 166 :: nat]"

definition searchResultText :: "platform \<Rightarrow> search_object \<Rightarrow> string" where
  "searchResultText pf result =
     (let pkg = package result;
          sc = score result;
          t = packageMarker @ '' **'' @ name pkg @ ''** v'' @ version pkg @ nl;
          t = t @ ''   '' @ (if nonEmpty (description pkg) then the (description pkg)
                             else ''No description available'') @ nl;
          t = (case keywordList pkg of
                 None \<Rightarrow> t
               | Some ks \<Rightarrow> if length ks > 0 then t @ ''   Keywords: '' @ intercalate '', '' ks @ nl else t);
          t = (if nonEmpty (authorName pkg) then t @ ''   Author: '' @ the (authorName pkg) @ nl else t);
          t = t @ ''   Score: '' @ percentToFixed1 pf (final sc) @ ''% (Quality: ''
                @ percentToFixed1 pf (quality (detail sc)) @ ''%, Popularity: ''
                @ percentToFixed1 pf (popularity (detail sc)) @ ''%, Maintenance: ''
                @ percentToFixed1 pf (maintenance (detail sc)) @ ''%)'' @ nl;
          t = t @ ''   NPM: '' @ npm (links pkg) @ nl;
          t = (if nonEmpty (homepage (links pkg)) then t @ ''   Homepage: '' @ the (homepage (links pkg)) @ nl else t);
          t = (if nonEmpty (repository (links pkg)) then t @ ''   Repository: '' @ the (repository (links pkg)) @ nl else t);
          t = t @ ''   Last updated: '' @ toLocaleDateString pf (date pkg) @ nl @ nl
      in t)"

definition searchText :: "platform \<Rightarrow> string \<Rightarrow> rat \<Rightarrow> SearchResponse \<Rightarrow> string" where
  "searchText pf query from_arg searchResults =
     (let resultText = ''Search Results for '' @ dq @ query @ dq @ nl;
          resultText = resultText @ ''Total packages found: '' @ numberToString pf (total searchResults) @ nl;
          resultText = resultText @ ''Showing '' @ decimal (length (objects searchResults))
                         @ '' results (from '' @ numberToString pf from_arg @ '')'' @ nl @ nl;
          resultText = foldl (\<lambda>acc result. acc @ searchResultText pf result) resultText (objects searchResults);
          resultText =
            (if length (objects searchResults) = 0 then
               resultText @ ''No packages found for this search query.'' @ nl @ ''Try:'' @ nl
                 @ ''- Using different keywords'' @ nl @ ''- Checking spelling'' @ nl
                 @ ''- Using more general terms'' @ nl
             else resultText)
      in resultText)"

text \<open>
  \<open>searchNpmPackages\<close>: \<open>query\<close> is checked at run time, so it is any value or absent;
  \<open>size\<close> and \<open>from\<close> are numbers or absent, with the defaults 20 and 0.
\<close>

definition validQuery :: "json option \<Rightarrow> bool" where
  "validQuery query =
     (case query of
        Some (JStr q) \<Rightarrow> \<not> (\<not> truthy query \<or> length (trim q) = 0)
      | _ \<Rightarrow> False)"

definition searchNpmPackages ::
  "platform \<Rightarrow> registry \<Rightarrow> json option \<Rightarrow> rat option \<Rightarrow> rat option \<Rightarrow> search_call list \<Rightarrow>
   (mcp_error + string) \<times> search_call list" where
  "searchNpmPackages pf reg query size_opt from_opt calls =
     (let size_arg = (case size_opt of None \<Rightarrow> 20 | Some n \<Rightarrow> n);
          from_arg = (case from_opt of None \<Rightarrow> 0 | Some n \<Rightarrow> n)
      in
      if \<not> validQuery query then
        (Inl (McpError InvalidParams ''query is required and must be a non-empty string''), calls)
      else if size_arg > 250 then
        (Inl (McpError InvalidParams ''size cannot exceed 250''), calls)
      else
        (case query of
           Some (JStr q) \<Rightarrow>
             (case performPackageSearch pf reg (trim q) size_arg from_arg calls of
                (Inl e, calls') \<Rightarrow>
                  (Inl (McpError InternalError (''Failed to search packages: '' @ message e)), calls')
              | (Inr searchResults, calls') \<Rightarrow>
                  (Inr (searchText pf q from_arg searchResults), calls'))
         | _ \<Rightarrow> (Inl (McpError InvalidParams ''query is required and must be a non-empty string''), calls)))"


section \<open>PopularityCache: getPopularPackages\<close>

record server_state =
  popularPackagesCache :: "string option"
  popularPackagesCacheTime :: int

definition initial_state :: server_state where
  "initial_state = \<lparr>popularPackagesCache = None, popularPackagesCacheTime = 0\<rparr>"

definition CACHE_DURATION :: int where
  "CACHE_DURATION = 24 * 60 * 60 * 1000"

definition popularQueries :: "string list" where
  "popularQueries =
     [''react'', ''lodash'', ''express'', ''typescript'', ''webpack'',
      ''eslint'', ''babel'', ''prettier'', ''jest'', ''axios'']"

text \<open>The inner loop: one pass over the hits of a search, with the set of names seen.\<close>

fun addResults ::
  "search_object list \<Rightarrow> string list \<times> SearchResult list \<Rightarrow> string list \<times> SearchResult list" where
  "addResults [] acc = acc"
| "addResults (result # rest) (allPopularPackages, packageDetails) =
     (if \<not> array_includes allPopularPackages (name (package result)) then
        addResults rest (allPopularPackages @ [name (package result)], packageDetails @ [package result])
      else addResults rest (allPopularPackages, packageDetails))"

text \<open>The outer loop: a failed search is logged and skipped.\<close>

fun searchSeeds ::
  "platform \<Rightarrow> registry \<Rightarrow> string list \<Rightarrow> string list \<times> SearchResult list \<Rightarrow> search_call list \<Rightarrow>
   (string list \<times> SearchResult list) \<times> search_call list" where
  "searchSeeds pf reg [] acc calls = (acc, calls)"
| "searchSeeds pf reg (searchTerm # terms) acc calls =
     (case performPackageSearch pf reg searchTerm 10 0 calls of
        (Inl e, calls') \<Rightarrow> searchSeeds pf reg terms acc calls'
      | (Inr results, calls') \<Rightarrow> searchSeeds pf reg terms (addResults (objects results) acc) calls')"

definition popularMarker :: string where
  "popularMarker = map char_of [195, 176, 197, 184, 226, 128, 157, 194, 165 :: nat]"

definition popularPackageText :: "platform \<Rightarrow> nat \<Rightarrow> SearchResult \<Rightarrow> string" where
  "popularPackageText pf i pkg =
     (let t = ''## '' @ decimal (i + 1) @ ''. '' @ name pkg @ nl;
          t = t @ ''**Version:** '' @ version pkg @ nl;
          t = t @ ''**Description:** '' @ (if nonEmpty (description pkg) then the (description pkg)
                                           else ''No description available'') @ nl;
          t = (case keywordList pkg of
                 None \<Rightarrow> t
               | Some ks \<Rightarrow>
                   if length ks > 0 then t @ ''**Keywords:** '' @ intercalate '', '' (take 5 ks) @ nl else t);
          t = (if nonEmpty (authorName pkg) then t @ ''**Author:** '' @ the (authorName pkg) @ nl else t);
          t = t @ ''**NPM:** '' @ npm (links pkg) @ nl;
          t = (if nonEmpty (homepage (links pkg)) then t @ ''**Homepage:** '' @ the (homepage (links pkg)) @ nl else t);
          t = (if nonEmpty (repository (links pkg)) then t @ ''**Repository:** '' @ the (repository (links pkg)) @ nl else t);
          t = t @ ''**Last Updated:** '' @ toLocaleDateString pf (date pkg) @ nl @ nl
      in t)"

text \<open>
  The digest: \<open>nowISO\<close> is \<open>new Date().toISOString()\<close>, a second reading of the clock.
\<close>

definition popularDigest :: "platform \<Rightarrow> string \<Rightarrow> SearchResult list \<Rightarrow> string" where
  "popularDigest pf nowISO packageDetails =
     (let sorted = sortByHeuristic pf packageDetails;
          resultText = ''# '' @ popularMarker @ '' Most Popular NPM Packages'' @ nl @ nl;
          resultText = resultText @ ''Updated: '' @ nowISO @ nl @ nl;
          topPackages = take 50 sorted;
          resultText = foldl (\<lambda>acc i. acc @ popularPackageText pf i (topPackages ! i)) resultText
                         [0 ..< length topPackages]
      in resultText)"

definition getPopularPackages ::
  "platform \<Rightarrow> registry \<Rightarrow> int \<Rightarrow> string \<Rightarrow> server_state \<Rightarrow> search_call list \<Rightarrow>
   (mcp_error + string) \<times> server_state \<times> search_call list" where
  "getPopularPackages pf reg now nowISO s calls =
     (if nonEmpty (popularPackagesCache s) \<and> now - popularPackagesCacheTime s < CACHE_DURATION then
        (Inr (the (popularPackagesCache s)), s, calls)
      else
        (case searchSeeds pf reg (take 5 popularQueries) ([], []) calls of
           ((allPopularPackages, packageDetails), calls') \<Rightarrow>
             (let resultText = popularDigest pf nowISO packageDetails
              in (Inr resultText,
                  s\<lparr>popularPackagesCache := Some resultText, popularPackagesCacheTime := now\<rparr>,
                  calls'))))"


section \<open>Predicates of the statements\<close>

text \<open>A path in normal form: no empty, \<open>.\<close> or \<open>..\<close> segment.\<close>

definition normalized :: "path \<Rightarrow> bool" where
  "normalized p = (\<forall>s \<in> set p. s \<noteq> [] \<and> s \<noteq> ''.'' \<and> s \<noteq> ''..'')"

text \<open>The metadata carries a usable archive URL: \<open>dist\<close> and \<open>dist.tarball\<close> are truthy.\<close>

definition hasTarball :: "json \<Rightarrow> bool" where
  "hasTarball packageInfo =
     (case getProp packageInfo ''dist'' of
        None \<Rightarrow> False
      | Some d \<Rightarrow> truthy (Some d) \<and> truthy (getProp d ''tarball''))"

text \<open>An optional field is missing when the metadata has no such property.\<close>

definition missing :: "json \<Rightarrow> string \<Rightarrow> bool" where
  "missing packageInfo k = (getProp packageInfo k = None)"

text \<open>
  The record \<open>info\<close> is normalised for the metadata \<open>packageInfo\<close>: each missing optional
  field carries its marker, and the two dependency fields carry the number of keys.
\<close>

definition normalizedInfo :: "json \<Rightarrow> (string \<times> json option) list \<Rightarrow> bool" where
  "normalizedInfo packageInfo info =
     ((missing packageInfo ''description'' \<longrightarrow>
         map_of info ''description'' = Some (Some (JStr ''No description available'')))
      \<and> (missing packageInfo ''main'' \<longrightarrow> map_of info ''main'' = Some (Some (JStr ''Not specified'')))
      \<and> (missing packageInfo ''types'' \<longrightarrow> map_of info ''types'' = Some (Some (JStr ''Not specified'')))
      \<and> (missing packageInfo ''author'' \<longrightarrow> map_of info ''author'' = Some (Some (JStr ''Not specified'')))
      \<and> (missing packageInfo ''license'' \<longrightarrow> map_of info ''license'' = Some (Some (JStr ''Not specified'')))
      \<and> (missing packageInfo ''homepage'' \<longrightarrow> map_of info ''homepage'' = Some (Some (JStr ''Not specified'')))
      \<and> (missing packageInfo ''repository'' \<longrightarrow>
           map_of info ''repository'' = Some (Some (JStr ''Not specified'')))
      \<and> (missing packageInfo ''dependencies'' \<longrightarrow> map_of info ''dependencies'' = Some (Some (JNum 0)))
      \<and> (missing packageInfo ''devDependencies'' \<longrightarrow> map_of info ''devDependencies'' = Some (Some (JNum 0)))
      \<and> (\<forall>kvs. getProp packageInfo ''dependencies'' = Some (JObj kvs) \<longrightarrow>
           map_of info ''dependencies'' = Some (Some (JNum (of_nat (card (fst ` set kvs))))))
      \<and> (\<forall>kvs. getProp packageInfo ''devDependencies'' = Some (JObj kvs) \<longrightarrow>
           map_of info ''devDependencies'' = Some (Some (JNum (of_nat (card (fst ` set kvs)))))))"

text \<open>
  The cache slot holds \<open>null\<close> or a digest stored by \<open>getPopularPackages\<close>; such a digest
  starts with the heading and is never the empty string.
\<close>

definition cache_wf :: "server_state \<Rightarrow> bool" where
  "cache_wf s = (popularPackagesCache s \<noteq> Some [])"

text \<open>The five seed searches of a recomputation.\<close>

definition seedCalls :: "search_call list" where
  "seedCalls = map (\<lambda>searchTerm. (searchTerm, 10, 0)) (take 5 popularQueries)"


section \<open>Instances of the parameters, for the examples\<close>

definition example_platform :: platform where
  "example_platform =
     \<lparr>JSON_parse_search = (\<lambda>data. Inl ''Unexpected end of JSON input''),
      numberToString = (\<lambda>r. ''0''),
      percentToFixed1 = (\<lambda>r. ''0.0''),
      toLocaleDateString = (\<lambda>d. d),
      sortByHeuristic = (\<lambda>ps. ps)\<rparr>"

text \<open>The character U+2003 (em space), which \<open>trim\<close> removes.\<close>

definition em_space :: string where
  "em_space = map char_of [226, 128, 131 :: nat]"

definition silent_registry :: registry where
  "silent_registry calls call = RequestTimeout"

definition reply_with :: "string \<Rightarrow> string \<Rightarrow> response" where
  "reply_with body url = Body body"

definition tarball_only_body :: string where
  "tarball_only_body =
     ''{'' @ dq @ ''dist'' @ dq @ '':{'' @ dq @ ''tarball'' @ dq @ '':'' @ dq
       @ ''https://registry.npmjs.org/left-pad/-/left-pad-1.3.0.tgz'' @ dq @ ''}}''"

definition tarball_only_metadata :: json where
  "tarball_only_metadata =
     JObj [(''dist'', JObj [(''tarball'', JStr ''https://registry.npmjs.org/left-pad/-/left-pad-1.3.0.tgz'')])]"

definition not_found_body :: string where
  "not_found_body = ''{'' @ dq @ ''error'' @ dq @ '':'' @ dq @ ''Not found'' @ dq @ ''}''"

definition example_parse :: "string \<Rightarrow> string + json" where
  "example_parse data =
     (if data = tarball_only_body then Inr tarball_only_metadata
      else if data = not_found_body then Inr (JObj [(''error'', JStr ''Not found'')])
      else Inl ''Unexpected end of JSON input'')"

definition constString :: "string \<Rightarrow> json option \<Rightarrow> string" where
  "constString s v = s"

definition manyCodeFiles :: "nat \<Rightarrow> node" where
  "manyCodeFiles k = Dir (map (\<lambda>i. (''f'' @ decimal i @ ''.js'', RegularFile (Inr ''x''))) [0 ..< k])"

text \<open>An unpacker for archives of top-level files, and a download that serves one.\<close>

definition flat_tar :: "(string \<times> string) list \<Rightarrow> (string \<times> node) list \<Rightarrow> (string \<times> node) list" where
  "flat_tar archive items =
     filter (\<lambda>(k, c). k \<notin> set (map fst archive)) items
       @ map (\<lambda>(k, text). (k, RegularFile (Inr text))) archive"

definition serve :: "'a \<Rightarrow> string \<Rightarrow> 'a download" where
  "serve archive url = Response 200 archive End"

definition sandbox_example :: node where
  "sandbox_example =
     Dir [(''srv'', Dir [(''temp'', Dir [(''lodash'', Dir [(''index.js'', RegularFile (Inr ''module.exports = 1'')),
                                                            (''lib'', Dir [])]),
                                         (''outside.txt'', RegularFile (Inr ''secret''))])])]"


definition temp_tree :: node where
  "temp_tree = Dir [(''srv'', Dir [(''temp'', Dir [])])]"

definition left_pad_body :: string where
  "left_pad_body = ''{'' @ dq @ ''name'' @ dq @ '':'' @ dq @ ''left-pad'' @ dq @ '', ...}''"

definition left_pad_metadata :: json where
  "left_pad_metadata =
     JObj [(''name'', JStr ''left-pad''), (''version'', JStr ''1.3.0''),
           (''dist'', JObj [(''tarball'', JStr ''https://registry.npmjs.org/left-pad/-/left-pad-1.3.0.tgz''),
                            (''shasum'', JStr ''5b8a3a7765dfe001261dde915589e782f8c94d1e'')]),
           (''license'', JStr ''WTFPL''),
           (''devDependencies'', JObj [(''benchmark'', JStr ''^2.1.4''), (''tape'', JStr ''*'')])]"

definition left_pad_parse :: "string \<Rightarrow> string + json" where
  "left_pad_parse data = (if data = left_pad_body then Inr left_pad_metadata else Inl ''Unexpected token'')"

definition field_names :: "(string \<times> json option) list \<Rightarrow> string" where
  "field_names info = intercalate '','' (map fst info)"


section \<open>Theorems\<close>

lemma getAllFiles_walk_shape:
  "p \<in> set (getAllFiles_walk dir n) \<Longrightarrow>
     \<exists>rel. p = dir @ rel \<and> rel \<noteq> [] \<and> (\<forall>d \<in> set (butlast rel). \<not> startsWith d ''.'')"
proof (induction dir n arbitrary: p rule: getAllFiles_walk.induct)
  case (1 currentDir items)
  from "1.prems" obtain item n where mem: "(item, n) \<in> set items"
    and p: "p \<in> set (let fullPath = currentDir @ [item] in
         if n = Unstatable then []
         else if isDirectory n \<and> \<not> startsWith item ''.'' then getAllFiles_walk fullPath n
         else if isFile n then [fullPath]
         else [])"
    by auto
  show ?case
  proof (cases "n \<noteq> Unstatable \<and> isDirectory n \<and> \<not> startsWith item ''.''")
    case True
    with p have "p \<in> set (getAllFiles_walk (currentDir @ [item]) n)" by simp
    with "1.IH" [OF mem refl] True obtain rel where
      rel: "p = (currentDir @ [item]) @ rel" "rel \<noteq> []" "\<forall>d \<in> set (butlast rel). \<not> startsWith d ''.''"
      by blast
    have "p = currentDir @ (item # rel)" using rel(1) by simp
    moreover have "\<forall>d \<in> set (butlast (item # rel)). \<not> startsWith d ''.''"
      using rel(2,3) True by simp
    ultimately show ?thesis by blast
  next
    case False
    with p have "p = currentDir @ [item]" by (auto simp: Let_def split: if_splits)
    then show ?thesis by auto
  qed
qed simp_all


subsection \<open>C1: which directories the flat listing descends into\<close>

text \<open>
  C1, as stated, fails: \<open>getAllFiles\<close> tests only the leading dot of a directory name and
  never consults the skip set, so the files below \<open>node_modules\<close> (a name of the skip set)
  are listed.
\<close>

theorem getAllFiles_skip_set_counterexample:
  "getAllFiles
     (Dir [(''pkg'', Dir [(''node_modules'', Dir [(''lib.js'', RegularFile (Inr ''x''))]),
                          (''index.js'', RegularFile (Inr ''y''))])])
     [''pkg'']
   = [[''pkg'', ''node_modules'', ''lib.js''], [''pkg'', ''index.js'']]
   \<and> array_includes skipDirs ''node_modules''
   \<and> shouldSkipDirectory ''node_modules''"
  by (simp add: getAllFiles_def startsWith_def array_includes_def skipDirs_def shouldSkipDirectory_def)

text \<open>
  C1 (amended): every path returned by \<open>getAllFiles\<close> lies strictly below the extracted
  root, and none of the directories between the root and the file has a base name that
  starts with the hidden-file marker \<open>.\<close>.
\<close>

theorem getAllFiles_hidden_only:
  "p \<in> set (getAllFiles fs dir) \<Longrightarrow>
     \<exists>rel. p = dir @ rel \<and> rel \<noteq> [] \<and> (\<forall>d \<in> set (butlast rel). \<not> startsWith d ''.'')"
  by (auto simp: getAllFiles_def split: option.splits dest: getAllFiles_walk_shape)

theorem getAllFiles_hidden_only_witness:
  "[''pkg'', ''src'', ''a.js''] \<in> set (getAllFiles
     (Dir [(''pkg'', Dir [(''.git'', Dir [(''config'', RegularFile (Inr ''c''))]),
                          (''src'', Dir [(''a.js'', RegularFile (Inr ''y''))])])])
     [''pkg''])
   \<and> (\<exists>rel. [''pkg'', ''src'', ''a.js''] = [''pkg''] @ rel \<and> rel \<noteq> []
         \<and> (\<forall>d \<in> set (butlast rel). \<not> startsWith d ''.''))"
proof -
  let ?fs = "Dir [(''pkg'', Dir [(''.git'', Dir [(''config'', RegularFile (Inr ''c''))]),
                          (''src'', Dir [(''a.js'', RegularFile (Inr ''y''))])])]"
  have mem: "[''pkg'', ''src'', ''a.js''] \<in> set (getAllFiles ?fs [''pkg''])"
    by (simp add: getAllFiles_def startsWith_def)
  from getAllFiles_hidden_only [OF mem] mem show ?thesis by simp
qed

subsection \<open>C2: what fetchPackageInfo rejects\<close>

lemma checkPackageInfo_cases:
  "checkPackageInfo packageInfo =
     (if packageInfo = JNull then
        Inl (Error (''Invalid JSON response: Cannot read properties of null (reading ''
                      @ sq @ ''dist'' @ sq @ '')''))
      else if hasTarball packageInfo then Inr packageInfo
      else Inl (Error ''Invalid package info: missing tarball URL''))"
  apply (cases packageInfo)
  apply (auto simp: checkPackageInfo_def hasTarball_def split: option.splits sum.splits)
  subgoal for kvs d by (cases d) auto
  subgoal for kvs d by (cases d) auto
  subgoal for kvs d by (cases d) auto
  done

text \<open>
  C2, as stated, fails: a body that parses to metadata with \<open>dist.tarball\<close> and no
  \<open>dist.shasum\<close> is resolved, not rejected.
\<close>

theorem fetchPackageInfo_no_shasum_counterexample:
  "fetchPackageInfo example_parse id (reply_with tarball_only_body) ''left-pad'' None
     = Inr tarball_only_metadata
   \<and> optChain (getProp tarball_only_metadata ''dist'') ''shasum'' = None"
  by (simp add: fetchPackageInfo_def checkPackageInfo_def example_parse_def reply_with_def
      tarball_only_metadata_def)

text \<open>
  C2 (amended): when the registry answers with a body, \<open>fetchPackageInfo\<close> fails with an
  invalid-response error whenever the body cannot be parsed as JSON or the parsed value
  has no truthy \<open>dist.tarball\<close>, and resolves with the parsed value otherwise; the checksum
  is not examined.
\<close>

theorem fetchPackageInfo_checks_tarball_only:
  "https_get (registryUrl encodeURIComponent packageName ver) = Body data \<Longrightarrow>
   fetchPackageInfo JSON_parse encodeURIComponent https_get packageName ver =
     (case JSON_parse data of
        Inl msg \<Rightarrow> Inl (Error (''Invalid JSON response: '' @ msg))
      | Inr packageInfo \<Rightarrow>
          if packageInfo = JNull then
            Inl (Error (''Invalid JSON response: Cannot read properties of null (reading ''
                          @ sq @ ''dist'' @ sq @ '')''))
          else if hasTarball packageInfo then Inr packageInfo
          else Inl (Error ''Invalid package info: missing tarball URL''))"
  by (simp add: fetchPackageInfo_def checkPackageInfo_cases split: sum.splits)

theorem fetchPackageInfo_checks_tarball_only_witness:
  "reply_with not_found_body (registryUrl id ''no-such-package'' (Some ''1.0.0'')) = Body not_found_body
   \<and> fetchPackageInfo example_parse id (reply_with not_found_body) ''no-such-package'' (Some ''1.0.0'')
       = Inl (Error ''Invalid package info: missing tarball URL'')"
proof -
  have h: "reply_with not_found_body (registryUrl id ''no-such-package'' (Some ''1.0.0''))
             = Body not_found_body"
    by (simp add: reply_with_def)
  have p: "example_parse not_found_body = Inr (JObj [(''error'', JStr ''Not found'')])"
    by (simp add: example_parse_def not_found_body_def tarball_only_body_def)
  have t: "\<not> hasTarball (JObj [(''error'', JStr ''Not found'')])"
    by (simp add: hasTarball_def)
  have "fetchPackageInfo example_parse id (reply_with not_found_body) ''no-such-package'' (Some ''1.0.0'')
       = Inl (Error ''Invalid package info: missing tarball URL'')"
    unfolding fetchPackageInfo_checks_tarball_only
      [where https_get = "reply_with not_found_body" and encodeURIComponent = id
         and packageName = "''no-such-package''" and ver = "Some ''1.0.0''"
         and data = not_found_body and JSON_parse = example_parse, OF h] p
    using t by simp
  with h show ?thesis by (rule conjI)
qed


subsection \<open>C3: the cap of getAllCodeFiles\<close>

lemma foldl_append_sections:
  "foldl (\<lambda>acc x. acc @ f x) acc xs = acc @ concat (map f xs)"
  by (induction xs arbitrary: acc) simp_all

lemma lastDot_js: "lastDot (s @ ''.js'') = Some (length s)"
  by (simp add: lastDot_def nth_append)

lemma extname_js: "s \<noteq> [] \<Longrightarrow> extname (s @ ''.js'') = ''.js''"
proof -
  assume s: "s \<noteq> []"
  then have "s @ ''.js'' \<noteq> ''..''" by (cases s) auto
  with s show ?thesis by (simp add: extname_def lastDot_js)
qed

lemma isCodeFile_js: "s \<noteq> [] \<Longrightarrow> isCodeFile (s @ ''.js'')"
  by (simp add: isCodeFile_def extname_js toLowerCase_def toLowerChar_def
      codeExtensions_def array_includes_def Let_def)

lemma findCodeFiles_walk_flat:
  "\<forall>i \<in> set js. isCodeFile (nm i) \<Longrightarrow>
   findCodeFiles_walk dir (Dir (map (\<lambda>i. (nm i, RegularFile (Inr (c i)))) js))
     = map (\<lambda>i. \<lparr>path = dir @ [nm i], content = c i\<rparr>) js"
  by (induction js) simp_all

lemma findCodeFiles_manyCodeFiles:
  "findCodeFiles (Dir [(''pkg'', manyCodeFiles k)]) [''pkg'']
     = map (\<lambda>i. \<lparr>path = [''pkg'', ''f'' @ decimal i @ ''.js''], content = ''x''\<rparr>) [0 ..< k]"
proof -
  have "\<forall>i \<in> set [0 ..< k]. isCodeFile ((\<lambda>i. ''f'' @ decimal i @ ''.js'') i)"
    using isCodeFile_js [of "''f'' @ decimal i" for i] by simp
  from findCodeFiles_walk_flat [OF this, of "[''pkg'']" "\<lambda>i. ''x''"]
  show ?thesis by (simp add: findCodeFiles_def manyCodeFiles_def)
qed

lemma decimal_examples: "decimal 500 = ''500''" "decimal 480 = ''480''"
  by code_simp+

text \<open>
  C3: the text of \<open>getAllCodeFiles\<close> is the heading with the true number of candidates,
  then one section for each of the first \<open>min 20 n\<close> candidates and for no other, then, when
  there are more than 20 candidates, the note with the excess \<open>n - 20\<close>.
\<close>

theorem getAllCodeFiles_cap:
  "getAllCodeFiles toString fs extractedPath packageInfo =
     ''Package: '' @ toString (getProp packageInfo ''name'') @ ''@''
       @ toString (getProp packageInfo ''version'') @ nl
       @ ''Description: ''
       @ toString (Some (orElse (getProp packageInfo ''description'') (JStr ''No description''))) @ nl
       @ ''Code files found: '' @ decimal (length (findCodeFiles fs extractedPath)) @ nl @ nl
       @ concat (map (fileSection extractedPath) (take 20 (findCodeFiles fs extractedPath)))
       @ (if 20 < length (findCodeFiles fs extractedPath) then
            ''... and '' @ decimal (length (findCodeFiles fs extractedPath) - 20) @ '' more files'' @ nl
              @ ''Use the '' @ sq @ ''list_package_files'' @ sq
              @ '' tool to see all files, then fetch specific files as needed.'' @ nl
          else [])
   \<and> length (take 20 (findCodeFiles fs extractedPath)) = min 20 (length (findCodeFiles fs extractedPath))"
  by (simp add: getAllCodeFiles_def Let_def maxFiles_def foldl_append_sections min_def)

theorem getAllCodeFiles_cap_witness:
  "length (findCodeFiles (Dir [(''pkg'', manyCodeFiles 500)]) [''pkg'']) = 500
   \<and> getAllCodeFiles (constString ''p'') (Dir [(''pkg'', manyCodeFiles 500)]) [''pkg''] (JObj []) =
     ''Package: p@p'' @ nl @ ''Description: p'' @ nl @ ''Code files found: 500'' @ nl @ nl
       @ concat (map (fileSection [''pkg''])
           (map (\<lambda>i. \<lparr>path = [''pkg'', ''f'' @ decimal i @ ''.js''], content = ''x''\<rparr>) [0 ..< 20]))
       @ ''... and 480 more files'' @ nl
       @ ''Use the '' @ sq @ ''list_package_files'' @ sq
       @ '' tool to see all files, then fetch specific files as needed.'' @ nl"
proof -
  let ?fs = "Dir [(''pkg'', manyCodeFiles 500)]"
  have len: "length (findCodeFiles ?fs [''pkg'']) = 500"
    by (simp add: findCodeFiles_manyCodeFiles)
  have tk: "take 20 (findCodeFiles ?fs [''pkg''])
      = map (\<lambda>i. \<lparr>path = [''pkg'', ''f'' @ decimal i @ ''.js''], content = ''x''\<rparr>) [0 ..< 20]"
    by (simp add: findCodeFiles_manyCodeFiles take_map)
  from getAllCodeFiles_cap [of "constString ''p''" ?fs "[''pkg'']" "JObj []"]
  have "getAllCodeFiles (constString ''p'') ?fs [''pkg''] (JObj []) =
     ''Package: '' @ constString ''p'' (getProp (JObj []) ''name'') @ ''@''
       @ constString ''p'' (getProp (JObj []) ''version'') @ nl
       @ ''Description: ''
       @ constString ''p'' (Some (orElse (getProp (JObj []) ''description'') (JStr ''No description''))) @ nl
       @ ''Code files found: '' @ decimal (length (findCodeFiles ?fs [''pkg''])) @ nl @ nl
       @ concat (map (fileSection [''pkg'']) (take 20 (findCodeFiles ?fs [''pkg''])))
       @ (if 20 < length (findCodeFiles ?fs [''pkg'']) then
            ''... and '' @ decimal (length (findCodeFiles ?fs [''pkg'']) - 20) @ '' more files'' @ nl
              @ ''Use the '' @ sq @ ''list_package_files'' @ sq
              @ '' tool to see all files, then fetch specific files as needed.'' @ nl
          else [])"
    by (rule conjunct1)
  then have "getAllCodeFiles (constString ''p'') ?fs [''pkg''] (JObj []) =
     ''Package: p@p'' @ nl @ ''Description: p'' @ nl @ ''Code files found: 500'' @ nl @ nl
       @ concat (map (fileSection [''pkg''])
           (map (\<lambda>i. \<lparr>path = [''pkg'', ''f'' @ decimal i @ ''.js''], content = ''x''\<rparr>) [0 ..< 20]))
       @ ''... and 480 more files'' @ nl
       @ ''Use the '' @ sq @ ''list_package_files'' @ sq
       @ '' tool to see all files, then fetch specific files as needed.'' @ nl"
    unfolding tk len by (simp add: decimal_examples constString_def del: decimal.simps)
  with len show ?thesis by (rule conjI)
qed


subsection \<open>C4: searchNpmPackages validates before it searches\<close>

text \<open>
  C4: a query that is missing, is not a string, or trims to the empty string, and a
  \<open>size\<close> above 250, each end the call with \<open>InvalidParams\<close> and leave the log of network
  calls as it was.
\<close>

theorem searchNpmPackages_invalid_params:
  "(query = None \<or> (\<forall>q. query \<noteq> Some (JStr q)) \<or> (\<exists>q. query = Some (JStr q) \<and> trim q = []) \<longrightarrow>
      searchNpmPackages pf reg query size_opt from_opt calls
        = (Inl (McpError InvalidParams ''query is required and must be a non-empty string''), calls))
   \<and> ((\<exists>n. size_opt = Some n \<and> n > 250) \<longrightarrow>
      searchNpmPackages pf reg query size_opt from_opt calls
        = (Inl (McpError InvalidParams
                 (if validQuery query then ''size cannot exceed 250''
                  else ''query is required and must be a non-empty string'')), calls))"
  by (auto simp: searchNpmPackages_def validQuery_def split: option.splits json.splits)

theorem searchNpmPackages_invalid_params_witness:
  "(\<exists>n. Some (300 :: rat) = Some n \<and> n > 250)
   \<and> searchNpmPackages example_platform silent_registry (Some (JStr ''react'')) (Some 300) None []
       = (Inl (McpError InvalidParams ''size cannot exceed 250''), [])
   \<and> trim em_space = []
   \<and> searchNpmPackages example_platform silent_registry (Some (JStr em_space)) None None []
       = (Inl (McpError InvalidParams ''query is required and must be a non-empty string''), [])"
proof -
  have h: "\<exists>n. Some (300 :: rat) = Some n \<and> n > 250" by simp
  have t: "trim ''react'' = ''react''" by code_simp
  have v: "validQuery (Some (JStr ''react''))"
    by (simp add: validQuery_def t)
  have "searchNpmPackages example_platform silent_registry (Some (JStr ''react'')) (Some 300) None []
        = (Inl (McpError InvalidParams
                 (if validQuery (Some (JStr ''react'')) then ''size cannot exceed 250''
                  else ''query is required and must be a non-empty string'')), [])"
    by (rule searchNpmPackages_invalid_params [THEN conjunct2, rule_format, OF h])
  then have big: "searchNpmPackages example_platform silent_registry (Some (JStr ''react'')) (Some 300) None []
       = (Inl (McpError InvalidParams ''size cannot exceed 250''), [])"
    unfolding if_P [OF v] .
  have e: "trim em_space = []" unfolding em_space_def by code_simp
  then have q: "Some (JStr em_space) = None \<or> (\<forall>q. Some (JStr em_space) \<noteq> Some (JStr q))
                  \<or> (\<exists>q. Some (JStr em_space) = Some (JStr q) \<and> trim q = [])"
    by blast
  have blank: "searchNpmPackages example_platform silent_registry (Some (JStr em_space)) None None []
       = (Inl (McpError InvalidParams ''query is required and must be a non-empty string''), [])"
    by (rule searchNpmPackages_invalid_params [THEN conjunct1, rule_format, OF q])
  from h big e blank show ?thesis by (intro conjI)
qed


subsection \<open>C5: the popularity cache\<close>

lemma searchSeeds_calls:
  "snd (searchSeeds pf reg terms acc calls) = calls @ map (\<lambda>searchTerm. (searchTerm, 10, 0)) terms"
  by (induction terms arbitrary: acc calls)
     (auto simp: performPackageSearch_def Let_def split: prod.splits sum.splits response.splits)

lemma popularDigest_nonempty: "popularDigest pf nowISO packageDetails \<noteq> []"
  by (simp add: popularDigest_def Let_def foldl_append_sections)

lemma cache_wf_initial: "cache_wf initial_state"
  by (simp add: cache_wf_def initial_state_def)

text \<open>
  C5: in every state of the cache slot that the program reaches (\<open>cache_wf\<close>: it holds at
  the start and after every call), an entry younger than \<open>CACHE_DURATION\<close> is returned as
  stored, with the state and the log of search calls unchanged; with no entry, or an
  entry of age at least \<open>CACHE_DURATION\<close>, the digest is computed from the five seed
  searches, returned, and stored with \<open>now\<close> as its timestamp.
\<close>

theorem getPopularPackages_cache:
  assumes "cache_wf s"
  shows "(popularPackagesCache s = Some text \<and> now - popularPackagesCacheTime s < CACHE_DURATION \<longrightarrow>
            getPopularPackages pf reg now nowISO s calls = (Inr text, s, calls))
       \<and> (popularPackagesCache s = None \<or> CACHE_DURATION \<le> now - popularPackagesCacheTime s \<longrightarrow>
            (\<exists>digest.
               digest = popularDigest pf nowISO
                          (snd (fst (searchSeeds pf reg (take 5 popularQueries) ([], []) calls)))
               \<and> getPopularPackages pf reg now nowISO s calls
                   = (Inr digest,
                      s\<lparr>popularPackagesCache := Some digest, popularPackagesCacheTime := now\<rparr>,
                      calls @ seedCalls)))
       \<and> cache_wf (fst (snd (getPopularPackages pf reg now nowISO s calls)))"
proof (intro conjI impI)
  assume "popularPackagesCache s = Some text \<and> now - popularPackagesCacheTime s < CACHE_DURATION"
  with assms show "getPopularPackages pf reg now nowISO s calls = (Inr text, s, calls)"
    by (simp add: getPopularPackages_def nonEmpty_def cache_wf_def)
next
  assume miss: "popularPackagesCache s = None \<or> CACHE_DURATION \<le> now - popularPackagesCacheTime s"
  then have cond: "\<not> (nonEmpty (popularPackagesCache s) \<and> now - popularPackagesCacheTime s < CACHE_DURATION)"
    by (auto simp: nonEmpty_def)
  obtain seen details calls' where
    ss: "searchSeeds pf reg (take 5 popularQueries) ([], []) calls = ((seen, details), calls')"
    by (metis surj_pair)
  have "calls' = calls @ seedCalls"
    using searchSeeds_calls [of pf reg "take 5 popularQueries" "([], [])" calls] ss
    by (simp add: seedCalls_def)
  with ss show "\<exists>digest.
               digest = popularDigest pf nowISO
                          (snd (fst (searchSeeds pf reg (take 5 popularQueries) ([], []) calls)))
               \<and> getPopularPackages pf reg now nowISO s calls
                   = (Inr digest,
                      s\<lparr>popularPackagesCache := Some digest, popularPackagesCacheTime := now\<rparr>,
                      calls @ seedCalls)"
    unfolding getPopularPackages_def using cond by (auto simp: Let_def)
next
  obtain seen details calls' where
    ss: "searchSeeds pf reg (take 5 popularQueries) ([], []) calls = ((seen, details), calls')"
    by (metis surj_pair)
  with assms show "cache_wf (fst (snd (getPopularPackages pf reg now nowISO s calls)))"
    by (simp add: getPopularPackages_def Let_def cache_wf_def popularDigest_nonempty)
qed

theorem getPopularPackages_cache_witness:
  "cache_wf \<lparr>popularPackagesCache = Some ''# digest'', popularPackagesCacheTime = 1000\<rparr>
   \<and> (86400999 :: int) - 1000 < CACHE_DURATION
   \<and> getPopularPackages example_platform silent_registry 86400999 ''2026-01-02T00:00:00.999Z''
        \<lparr>popularPackagesCache = Some ''# digest'', popularPackagesCacheTime = 1000\<rparr> []
      = (Inr ''# digest'', \<lparr>popularPackagesCache = Some ''# digest'', popularPackagesCacheTime = 1000\<rparr>, [])"
proof -
  let ?s = "\<lparr>popularPackagesCache = Some ''# digest'', popularPackagesCacheTime = 1000\<rparr>"
  have wf: "cache_wf ?s" by (simp add: cache_wf_def)
  have age: "(86400999 :: int) - 1000 < CACHE_DURATION" by (simp add: CACHE_DURATION_def)
  have c: "popularPackagesCache ?s = Some ''# digest''
             \<and> 86400999 - popularPackagesCacheTime ?s < CACHE_DURATION"
    using age by simp
  have "getPopularPackages example_platform silent_registry 86400999 ''2026-01-02T00:00:00.999Z'' ?s []
      = (Inr ''# digest'', ?s, [])"
    by (rule getPopularPackages_cache [OF wf, THEN conjunct1, rule_format, OF c])
  with wf age show ?thesis by blast
qed

subsection \<open>The file tree under removal, creation and unpacking\<close>

lemma map_of_map_update:
  "map_of (map (\<lambda>(k, c). if k = s then (k, g c) else (k, c)) items) s = map_option g (map_of items s)"
  by (induction items) auto

lemma map_of_filter_removed:
  "map_of (filter (\<lambda>(k, c). k \<noteq> s) items) s = None"
  by (induction items) auto

lemma lookup_remove_at: "p \<noteq> [] \<Longrightarrow> lookup p (remove_at p fs) = None"
proof (induction p fs rule: remove_at.induct)
  case (3 s s' ss items)
  show ?case
  proof (cases "map_of items s")
    case None
    then show ?thesis by (simp add: map_of_map_update)
  next
    case (Some c)
    then have "(s, c) \<in> set items" by (rule map_of_SomeD)
    from "3.IH" [OF this refl] Some show ?thesis
      by (simp add: map_of_map_update)
  qed
qed (simp_all add: map_of_filter_removed)

lemma lookup_newDirs: "lookup p (newDirs p) = Some (Dir [])"
  by (induction p) simp_all

lemma mkdirSync_creates:
  "lookup p fs = None \<Longrightarrow> mkdirSync p fs = Inr fs' \<Longrightarrow> lookup p fs' = Some (Dir [])"
proof (induction p fs arbitrary: fs' rule: mkdirSync.induct)
  case (2 s ss items)
  show ?case
  proof (cases "map_of items s")
    case None
    with "2.prems" show ?thesis by (auto simp: lookup_newDirs map_add_def)
  next
    case (Some c)
    with "2.prems" obtain c' where c': "mkdirSync ss c = Inr c'"
      and fs': "fs' = Dir (map (\<lambda>(k, x). if k = s then (k, c') else (k, x)) items)"
      by (auto split: sum.splits)
    from "2.prems"(1) Some have "lookup ss c = None" by simp
    from "2.IH" [OF Some this c'] have "lookup ss c' = Some (Dir [])" .
    then show ?thesis using Some by (simp add: fs' map_of_map_update)
  qed
qed simp_all

lemma mkdirSync_after_remove:
  "p \<noteq> [] \<Longrightarrow> lookup p fs = Some n \<Longrightarrow> \<exists>fs'. mkdirSync p (remove_at p fs) = Inr fs'"
proof (induction p fs arbitrary: n rule: remove_at.induct)
  case (2 s items)
  then show ?case by (simp add: map_of_filter_removed)
next
  case (3 s s' ss items)
  from "3.prems"(2) obtain c where c: "map_of items s = Some c" and l: "lookup (s' # ss) c = Some n"
    by (auto split: option.splits)
  from c have "(s, c) \<in> set items" by (rule map_of_SomeD)
  from "3.IH" [OF this refl refl _ l] obtain c' where "mkdirSync (s' # ss) (remove_at (s' # ss) c) = Inr c'"
    by auto
  then show ?case using c by (simp add: map_of_map_update)
qed simp_all

lemma mkdirSync_not_directory:
  "lookup p fs = Some n \<Longrightarrow> \<not> isDirectory n \<Longrightarrow> \<exists>e. mkdirSync p fs = Inl e"
proof (induction p fs rule: mkdirSync.induct)
  case (2 s ss items)
  from "2.prems"(1) obtain c where c: "map_of items s = Some c" and l: "lookup ss c = Some n"
    by (auto split: option.splits)
  from "2.IH" [OF c l "2.prems"(2)] c show ?case by auto
qed simp_all

lemma lookup_modify_at:
  "lookup p fs = Some (Dir items) \<Longrightarrow> lookup p (modify_at p f fs) = Some (Dir (f items))"
proof (induction p f fs rule: modify_at.induct)
  case (2 s ss f its)
  from "2.prems" obtain c where c: "map_of its s = Some c" and l: "lookup ss c = Some (Dir items)"
    by (auto split: option.splits)
  from c have "(s, c) \<in> set its" by (rule map_of_SomeD)
  from "2.IH" [OF this refl refl l] show ?case using c by (simp add: map_of_map_update)
qed (auto elim: lookup.elims)

lemma sanitizedName_no_separator: "CHR ''/'' \<notin> set (sanitizedName packageName)"
  by (auto simp: sanitizedName_def)

lemma extractPath_no_trailing: "snd (extractPath tempDir packageName) = False"
proof (cases "sanitizedName packageName = []")
  case True
  then show ?thesis by (simp add: extractPath_def path_join_def)
next
  case False
  then have "last (sanitizedName packageName) \<in> set (sanitizedName packageName)" by simp
  with sanitizedName_no_separator [of packageName]
  have "last (sanitizedName packageName) \<noteq> CHR ''/''" by metis
  then show ?thesis by (simp add: extractPath_def path_join_def Let_def)
qed

lemma existsSync_extractPath:
  "existsSync fs (extractPath tempDir packageName)
     = (\<exists>n. lookup (fst (extractPath tempDir packageName)) fs = Some n \<and> n \<noteq> Unstatable)"
  using extractPath_no_trailing [of tempDir packageName]
  by (auto simp: existsSync_def resolve_def split: option.splits)

lemma lookup_modify_at_unpacked:
  assumes "lookup p fs2 = Some (Dir [])"
  shows "lookup p (snd (case d of
            DownloadError msg \<Rightarrow> (Inl (Error (''Download failed: '' @ msg)), fs2)
          | DownloadTimeout \<Rightarrow> (Inl (Error ''Download timeout''), fs2)
          | Response statusCode archive fin \<Rightarrow>
              if statusCode \<noteq> 200 then
                (Inl (Error (''HTTP '' @ decimal statusCode @ '': Failed to download tarball'')), fs2)
              else
                (let fs3 = modify_at p (tar_extract archive) fs2 in
                 case fin of
                   End \<Rightarrow> (Inr p, fs3)
                 | ExtractError msg \<Rightarrow> (Inl (Error (''Extraction failed: '' @ msg)), fs3)
                 | GunzipError msg \<Rightarrow> (Inl (Error (''Decompression failed: '' @ msg)), fs3)
                 | TimedOut \<Rightarrow> (Inl (Error ''Download timeout''), fs3))))
         = Some (Dir (unpacked tar_extract d))"
  using assms lookup_modify_at [OF assms]
  by (auto simp: unpacked_def Let_def split: download.splits stream_end.splits)

text \<open>A run on a tree where the sandbox path exists leaves there what it unpacked.\<close>

lemma sandbox_after_run:
  assumes p: "p = fst (extractPath tempDir packageName)"
    and ne: "p \<noteq> []"
    and ex: "lookup p fs = Some n" "n \<noteq> Unstatable"
  shows "lookup p (snd (downloadAndExtract tar_extract https_get tempDir tarballUrl packageName fs))
           = Some (Dir (unpacked tar_extract (https_get tarballUrl)))"
proof -
  have e: "existsSync fs (extractPath tempDir packageName)"
    using ex p by (simp add: existsSync_extractPath)
  from mkdirSync_after_remove [OF ne ex(1)] obtain fs2 where
    mk: "mkdirSync p (remove_at p fs) = Inr fs2" by blast
  have "lookup p fs2 = Some (Dir [])"
    by (rule mkdirSync_creates [OF lookup_remove_at [OF ne] mk])
  from lookup_modify_at_unpacked [OF this, where d = "https_get tarballUrl" and tar_extract = tar_extract]
  show ?thesis
    using e ne mk unfolding downloadAndExtract_def Let_def p [symmetric] rmSync_def
    by (simp add: p [symmetric])
qed

text \<open>A run that resolves returns the sandbox path and leaves there what it unpacked.\<close>

lemma run_resolved:
  assumes run: "downloadAndExtract tar_extract https_get tempDir tarballUrl packageName fs = (Inr q, fs')"
  shows "q = fst (extractPath tempDir packageName) \<and> q \<noteq> []
       \<and> lookup q fs' = Some (Dir (unpacked tar_extract (https_get tarballUrl)))"
proof -
  let ?p = "fst (extractPath tempDir packageName)"
  show ?thesis
  proof (cases "existsSync fs (extractPath tempDir packageName)")
    case True
    then obtain n where n: "lookup ?p fs = Some n" "n \<noteq> Unstatable"
      by (auto simp: existsSync_extractPath)
    have ne: "?p \<noteq> []"
    proof
      assume "?p = []"
      with True run show False
        by (simp add: downloadAndExtract_def Let_def rmSync_def)
    qed
    from sandbox_after_run [OF refl ne n, where tar_extract = tar_extract and https_get = https_get
        and tarballUrl = tarballUrl] run
    have l: "lookup ?p fs' = Some (Dir (unpacked tar_extract (https_get tarballUrl)))" by simp
    from run True ne have "q = ?p"
      by (auto simp: downloadAndExtract_def Let_def rmSync_def
          split: sum.splits download.splits stream_end.splits if_splits)
    with ne l show ?thesis by simp
  next
    case False
    from run False obtain fs2 where mk: "mkdirSync ?p fs = Inr fs2"
      by (auto simp: downloadAndExtract_def Let_def split: sum.splits)
    have none: "lookup ?p fs = None"
    proof (cases "lookup ?p fs")
      case (Some n)
      with False have "n = Unstatable" by (simp add: existsSync_extractPath)
      with mkdirSync_not_directory [OF Some] mk show ?thesis by auto
    qed simp
    then have ne: "?p \<noteq> []" by auto
    have l2: "lookup ?p fs2 = Some (Dir [])" by (rule mkdirSync_creates [OF none mk])
    from lookup_modify_at_unpacked [OF l2, where d = "https_get tarballUrl" and tar_extract = tar_extract]
      run False mk
    have l: "lookup ?p fs' = Some (Dir (unpacked tar_extract (https_get tarballUrl)))"
      by (simp add: downloadAndExtract_def Let_def)
    from run False mk have "q = ?p"
      by (auto simp: downloadAndExtract_def Let_def
          split: sum.splits download.splits stream_end.splits if_splits)
    with ne l show ?thesis by simp
  qed
qed


subsection \<open>C6: downloadAndExtract twice for one package name\<close>

text \<open>
  C6: when a first run for a package name has resolved with the sandbox path, then after
  a second run for the same name (whatever it downloads, and however it ends) the
  sandbox directory holds exactly what the second download unpacks into an empty
  directory: nothing of the first run remains.
\<close>

theorem downloadAndExtract_idempotent:
  assumes run1: "downloadAndExtract tar_extract get1 tempDir url1 packageName fs0 = (Inr p, fs1)"
    and run2: "downloadAndExtract tar_extract get2 tempDir url2 packageName fs1 = (r2, fs2)"
  shows "p = fst (extractPath tempDir packageName)
       \<and> lookup p fs2 = Some (Dir (unpacked tar_extract (get2 url2)))"
proof -
  from run_resolved [OF run1] have p: "p = fst (extractPath tempDir packageName)"
    and ne: "p \<noteq> []"
    and l1: "lookup p fs1 = Some (Dir (unpacked tar_extract (get1 url1)))" by blast+
  have "Dir (unpacked tar_extract (get1 url1)) \<noteq> Unstatable" by simp
  from sandbox_after_run [OF p ne l1 this, where tar_extract = tar_extract and https_get = get2
      and tarballUrl = url2] run2 p
  show ?thesis by simp
qed

theorem downloadAndExtract_idempotent_witness:
  "downloadAndExtract flat_tar (serve [(''old.js'', ''1'')]) [''srv'', ''temp''] ''u1'' ''lodash'' temp_tree
     = (Inr [''srv'', ''temp'', ''lodash''],
        Dir [(''srv'', Dir [(''temp'', Dir [(''lodash'', Dir [(''old.js'', RegularFile (Inr ''1''))])])])])
   \<and> snd (downloadAndExtract flat_tar (serve [(''new.js'', ''2'')]) [''srv'', ''temp''] ''u2'' ''lodash''
        (Dir [(''srv'', Dir [(''temp'', Dir [(''lodash'', Dir [(''old.js'', RegularFile (Inr ''1''))])])])]))
     = Dir [(''srv'', Dir [(''temp'', Dir [(''lodash'', Dir [(''new.js'', RegularFile (Inr ''2''))])])])]
   \<and> lookup [''srv'', ''temp'', ''lodash'']
        (Dir [(''srv'', Dir [(''temp'', Dir [(''lodash'', Dir [(''new.js'', RegularFile (Inr ''2''))])])])])
     = Some (Dir (unpacked flat_tar (serve [(''new.js'', ''2'')] ''u2'')))
   \<and> unpacked flat_tar (serve [(''new.js'', ''2'')] ''u2'') = [(''new.js'', RegularFile (Inr ''2''))]"
proof -
  let ?fs1 = "Dir [(''srv'', Dir [(''temp'', Dir [(''lodash'', Dir [(''old.js'', RegularFile (Inr ''1''))])])])]"
  let ?fs2 = "Dir [(''srv'', Dir [(''temp'', Dir [(''lodash'', Dir [(''new.js'', RegularFile (Inr ''2''))])])])]"
  have r1: "downloadAndExtract flat_tar (serve [(''old.js'', ''1'')]) [''srv'', ''temp''] ''u1'' ''lodash'' temp_tree
     = (Inr [''srv'', ''temp'', ''lodash''], ?fs1)"
    by (simp add: downloadAndExtract_def extractPath_def sanitizedName_def path_join_def normalize_def
      normalizeStep_def existsSync_def resolve_def temp_tree_def serve_def flat_tar_def Let_def)
  have r2: "downloadAndExtract flat_tar (serve [(''new.js'', ''2'')]) [''srv'', ''temp''] ''u2'' ''lodash'' ?fs1
     = (Inr [''srv'', ''temp'', ''lodash''], ?fs2)"
    by (simp add: downloadAndExtract_def extractPath_def sanitizedName_def path_join_def normalize_def
      normalizeStep_def existsSync_def resolve_def rmSync_def serve_def flat_tar_def Let_def)
  have l: "lookup [''srv'', ''temp'', ''lodash''] ?fs2
     = Some (Dir (unpacked flat_tar (serve [(''new.js'', ''2'')] ''u2'')))"
    by (rule downloadAndExtract_idempotent [OF r1 r2, THEN conjunct2])
  have u: "unpacked flat_tar (serve [(''new.js'', ''2'')] ''u2'') = [(''new.js'', RegularFile (Inr ''2''))]"
    by (simp add: unpacked_def serve_def flat_tar_def)
  have s2: "snd (downloadAndExtract flat_tar (serve [(''new.js'', ''2'')]) [''srv'', ''temp''] ''u2'' ''lodash'' ?fs1) = ?fs2"
    using r2 by simp
  from r1 s2 l u show ?thesis by (intro conjI)
qed


subsection \<open>C7: the failures of getSpecificFile\<close>

text \<open>
  C7: \<open>getSpecificFile\<close> fails with the not-found error exactly when nothing exists at the
  joined path; when a directory (or anything that is not a regular file) is there, it
  fails with the not-a-file error, which is not the not-found error; when the file is
  there and reading it throws, it fails with the read error; otherwise it returns the
  content.
\<close>

theorem getSpecificFile_errors:
  "(getSpecificFile fs extractedPath filePath = Inl (Error (''File not found: '' @ filePath)))
     = (\<not> existsSync fs (path_join extractedPath filePath))
   \<and> (resolve fs (path_join extractedPath filePath) = Some n \<and> \<not> isFile n \<longrightarrow>
        getSpecificFile fs extractedPath filePath = Inl (Error (''Path is not a file: '' @ filePath)))
   \<and> (resolve fs (path_join extractedPath filePath) = Some (Dir items) \<longrightarrow>
        getSpecificFile fs extractedPath filePath = Inl (Error (''Path is not a file: '' @ filePath))
        \<and> getSpecificFile fs extractedPath filePath \<noteq> Inl (Error (''File not found: '' @ filePath)))
   \<and> (resolve fs (path_join extractedPath filePath) = Some (RegularFile (Inl msg)) \<longrightarrow>
        getSpecificFile fs extractedPath filePath
          = Inl (Error (''Failed to read file '' @ filePath @ '': '' @ msg)))
   \<and> (resolve fs (path_join extractedPath filePath) = Some (RegularFile (Inr text)) \<longrightarrow>
        getSpecificFile fs extractedPath filePath = Inr (''File: '' @ filePath @ nl @ nl @ text))"
  by (auto simp: getSpecificFile_def existsSync_def Let_def split: option.splits sum.splits)

theorem getSpecificFile_errors_witness:
  "resolve sandbox_example (path_join [''srv'', ''temp'', ''lodash''] ''lib'') = Some (Dir [])
   \<and> getSpecificFile sandbox_example [''srv'', ''temp'', ''lodash''] ''lib''
       = Inl (Error (''Path is not a file: '' @ ''lib''))
   \<and> getSpecificFile sandbox_example [''srv'', ''temp'', ''lodash''] ''lib''
       \<noteq> Inl (Error (''File not found: '' @ ''lib''))"
proof -
  have r: "resolve sandbox_example (path_join [''srv'', ''temp'', ''lodash''] ''lib'') = Some (Dir [])"
    by (simp add: sandbox_example_def resolve_def path_join_def normalize_def normalizeStep_def)
  from getSpecificFile_errors [THEN conjunct2, THEN conjunct2, THEN conjunct1, rule_format, OF r]
  have "getSpecificFile sandbox_example [''srv'', ''temp'', ''lodash''] ''lib''
          = Inl (Error (''Path is not a file: '' @ ''lib''))
        \<and> getSpecificFile sandbox_example [''srv'', ''temp'', ''lodash''] ''lib''
          \<noteq> Inl (Error (''File not found: '' @ ''lib''))" .
  with r show ?thesis by (rule conjI)
qed


subsection \<open>C8: the normalised record of getPackageInfo\<close>

lemma objectKeysLength_obj:
  "objectKeysLength (Some (JObj kvs)) = card (fst ` set kvs)"
  by (simp add: length_remdups_card_conv)

lemma getPackageInfo_info_fields:
  assumes "getPackageInfo_info packageInfo = Inr info"
  shows "normalizedInfo packageInfo info"
proof -
  from assms obtain t s where info: "info =
      [(''name'', getProp packageInfo ''name''),
       (''version'', getProp packageInfo ''version''),
       (''description'',
          Some (orElse (getProp packageInfo ''description'') (JStr ''No description available''))),
       (''main'', Some (orElse (getProp packageInfo ''main'') (JStr ''Not specified''))),
       (''types'', Some (orElse (getProp packageInfo ''types'') (JStr ''Not specified''))),
       (''keywords'', Some (orElse (getProp packageInfo ''keywords'') (JArr []))),
       (''author'', Some (orElse (getProp packageInfo ''author'') (JStr ''Not specified''))),
       (''license'', Some (orElse (getProp packageInfo ''license'') (JStr ''Not specified''))),
       (''homepage'', Some (orElse (getProp packageInfo ''homepage'') (JStr ''Not specified''))),
       (''repository'',
          Some (orElse (optChain (getProp packageInfo ''repository'') ''url'') (JStr ''Not specified''))),
       (''tarball'', t),
       (''shasum'', s),
       (''dependencies'',
          Some (JNum (of_nat (objectKeysLength (getProp packageInfo ''dependencies''))))),
       (''devDependencies'',
          Some (JNum (of_nat (objectKeysLength (getProp packageInfo ''devDependencies'')))))]"
    by (auto simp: getPackageInfo_info_def split: sum.splits)
  show ?thesis
    unfolding info
    by (simp add: normalizedInfo_def missing_def orElse_def objectKeysLength_obj del: objectKeysLength.simps(1))
qed

lemma fetchPackageInfo_hasTarball:
  "fetchPackageInfo JSON_parse enc https_get pn ver = Inr packageInfo \<Longrightarrow> hasTarball packageInfo"
  by (auto simp: fetchPackageInfo_def checkPackageInfo_cases Let_def
      split: response.splits sum.splits if_splits)

lemma getPackageInfo_info_total:
  "hasTarball packageInfo \<Longrightarrow> \<exists>info. getPackageInfo_info packageInfo = Inr info"
  apply (cases "getProp packageInfo ''dist''")
   apply (simp add: hasTarball_def)
  subgoal for d by (cases d) (auto simp: hasTarball_def getPackageInfo_info_def)
  done

text \<open>
  C8: when the metadata is fetched, \<open>getPackageInfo\<close> returns the rendering of a record in
  which a missing \<open>description\<close> is the marker \<open>No description available\<close>, a missing
  \<open>main\<close>, \<open>types\<close>, \<open>author\<close>, \<open>license\<close>, \<open>homepage\<close> or \<open>repository\<close> is the marker
  \<open>Not specified\<close>, and \<open>dependencies\<close> and \<open>devDependencies\<close> are the numbers of their keys
  (0 when missing).
\<close>

theorem getPackageInfo_normalized:
  assumes fetch: "fetchPackageInfo JSON_parse encodeURIComponent https_get pn ver = Inr packageInfo"
    and pn: "pn \<noteq> []"
  shows "\<exists>info.
           getPackageInfo JSON_parse JSON_stringify encodeURIComponent https_get (Some (JStr pn)) ver
             = Inr (''Package Information:'' @ nl @ JSON_stringify info)
         \<and> normalizedInfo packageInfo info"
proof -
  from getPackageInfo_info_total [OF fetchPackageInfo_hasTarball [OF fetch]]
  obtain info where info: "getPackageInfo_info packageInfo = Inr info" ..
  have "getPackageInfo JSON_parse JSON_stringify encodeURIComponent https_get (Some (JStr pn)) ver
          = Inr (''Package Information:'' @ nl @ JSON_stringify info)"
    using fetch pn info by (simp add: getPackageInfo_def)
  with getPackageInfo_info_fields [OF info] show ?thesis by blast
qed

theorem getPackageInfo_normalized_witness:
  "fetchPackageInfo left_pad_parse id (reply_with left_pad_body) ''left-pad'' None = Inr left_pad_metadata
   \<and> ''left-pad'' \<noteq> []
   \<and> missing left_pad_metadata ''main''
   \<and> (\<exists>info.
         getPackageInfo left_pad_parse field_names id (reply_with left_pad_body) (Some (JStr ''left-pad'')) None
           = Inr (''Package Information:'' @ nl @ field_names info)
         \<and> map_of info ''main'' = Some (Some (JStr ''Not specified''))
         \<and> map_of info ''dependencies'' = Some (Some (JNum 0))
         \<and> map_of info ''devDependencies'' = Some (Some (JNum 2)))"
proof -
  have f: "fetchPackageInfo left_pad_parse id (reply_with left_pad_body) ''left-pad'' None = Inr left_pad_metadata"
    by (simp add: fetchPackageInfo_def checkPackageInfo_def left_pad_parse_def reply_with_def
        left_pad_metadata_def)
  have n: "''left-pad'' \<noteq> []" by simp
  have m: "missing left_pad_metadata ''main''" "missing left_pad_metadata ''dependencies''"
    by (simp_all add: missing_def left_pad_metadata_def)
  have d: "getProp left_pad_metadata ''devDependencies''
             = Some (JObj [(''benchmark'', JStr ''^2.1.4''), (''tape'', JStr ''*'')])"
    by (simp add: left_pad_metadata_def)
  have c: "card (fst ` set [(''benchmark'', JStr ''^2.1.4''), (''tape'', JStr ''*'')]) = 2"
    by simp
  from getPackageInfo_normalized [OF f n, of field_names] obtain info where
    run: "getPackageInfo left_pad_parse field_names id (reply_with left_pad_body) (Some (JStr ''left-pad'')) None
           = Inr (''Package Information:'' @ nl @ field_names info)"
    and norm: "normalizedInfo left_pad_metadata info"
    by blast
  from norm m(1) have i1: "map_of info ''main'' = Some (Some (JStr ''Not specified''))"
    by (simp add: normalizedInfo_def)
  from norm m(2) have i2: "map_of info ''dependencies'' = Some (Some (JNum 0))"
    by (simp add: normalizedInfo_def)
  from norm d have "map_of info ''devDependencies''
      = Some (Some (JNum (of_nat (card (fst ` set [(''benchmark'', JStr ''^2.1.4''), (''tape'', JStr ''*'')])))))"
    unfolding normalizedInfo_def by blast
  then have i3: "map_of info ''devDependencies'' = Some (Some (JNum 2))"
    unfolding c by simp
  from run i1 i2 i3 have "\<exists>info.
         getPackageInfo left_pad_parse field_names id (reply_with left_pad_body) (Some (JStr ''left-pad'')) None
           = Inr (''Package Information:'' @ nl @ field_names info)
         \<and> map_of info ''main'' = Some (Some (JStr ''Not specified''))
         \<and> map_of info ''dependencies'' = Some (Some (JNum 0))
         \<and> map_of info ''devDependencies'' = Some (Some (JNum 2))"
    by blast
  with f n m(1) show ?thesis by (intro conjI)
qed



subsection \<open>C9: getSpecificFile does not confine the path to the sandbox\<close>

lemma foldl_normalizeStep_normalized:
  "normalized p \<Longrightarrow> foldl normalizeStep acc p = acc @ p"
  by (induction p arbitrary: acc) (auto simp: normalized_def normalizeStep_def)

lemma normalize_normalized: "normalized p \<Longrightarrow> normalize p = p"
  by (simp add: normalize_def foldl_normalizeStep_normalized)

lemma path_join_parent:
  assumes "normalized (base @ [d])"
  shows "path_join (base @ [d]) ''../outside.txt'' = (base @ [''outside.txt''], False)"
proof -
  have "foldl normalizeStep [] ((base @ [d]) @ [''..'', ''outside.txt''])
          = foldl normalizeStep (base @ [d]) [''..'', ''outside.txt'']"
    using foldl_normalizeStep_normalized [OF assms, of "[]"] by simp
  also have "\<dots> = base @ [''outside.txt'']"
    by (simp add: normalizeStep_def)
  finally show ?thesis
    by (simp add: path_join_def normalize_def)
qed

text \<open>
  C9: for a sandbox root in normal form whose last segment is not \<open>outside.txt\<close>, the
  relative path \<open>../outside.txt\<close> is joined to the sibling \<open>outside.txt\<close> of the root, which
  does not lie below the root; when a readable file is there, \<open>getSpecificFile\<close> returns
  its content.
\<close>

theorem getSpecificFile_escapes_root:
  assumes "normalized (base @ [d])"
    and "d \<noteq> ''outside.txt''"
    and "lookup (base @ [''outside.txt'']) fs = Some (RegularFile (Inr text))"
  shows "fst (path_join (base @ [d]) ''../outside.txt'') = base @ [''outside.txt'']
       \<and> \<not> (\<exists>rel. fst (path_join (base @ [d]) ''../outside.txt'') = (base @ [d]) @ rel)
       \<and> getSpecificFile fs (base @ [d]) ''../outside.txt'' = Inr (''File: ../outside.txt'' @ nl @ nl @ text)"
proof -
  have pj: "path_join (base @ [d]) ''../outside.txt'' = (base @ [''outside.txt''], False)"
    by (rule path_join_parent [OF assms(1)])
  have res: "resolve fs (base @ [''outside.txt''], False) = Some (RegularFile (Inr text))"
    using assms(3) by (simp add: resolve_def)
  have "getSpecificFile fs (base @ [d]) ''../outside.txt'' = Inr (''File: ../outside.txt'' @ nl @ nl @ text)"
    unfolding getSpecificFile_def pj Let_def existsSync_def res by simp
  moreover have "\<not> (\<exists>rel. base @ [''outside.txt''] = (base @ [d]) @ rel)"
    using assms(2) by auto
  ultimately show ?thesis using pj by simp
qed


theorem getSpecificFile_escapes_root_witness:
  "normalized ([''srv'', ''temp''] @ [''lodash'']) \<and> ''lodash'' \<noteq> ''outside.txt''
   \<and> lookup ([''srv'', ''temp''] @ [''outside.txt'']) sandbox_example = Some (RegularFile (Inr ''secret''))
   \<and> getSpecificFile sandbox_example ([''srv'', ''temp''] @ [''lodash'']) ''../outside.txt''
      = Inr (''File: ../outside.txt'' @ nl @ nl @ ''secret'')"
proof -
  have a: "normalized ([''srv'', ''temp''] @ [''lodash''])" by (simp add: normalized_def)
  have b: "''lodash'' \<noteq> ''outside.txt''" by simp
  have c: "lookup ([''srv'', ''temp''] @ [''outside.txt'']) sandbox_example = Some (RegularFile (Inr ''secret''))"
    by (simp add: sandbox_example_def)
  from getSpecificFile_escapes_root [OF a b c] a b c show ?thesis by blast
qed


subsection \<open>C10: the sandbox path is not injective in the package name\<close>

lemma extractPath_collision:
  "extractPath tempDir ''@foo/bar'' = extractPath tempDir ''_foo_bar''"
  by (simp add: extractPath_def sanitizedName_def)

text \<open>
  C10: \<open>sanitizedName\<close> maps \<open>@\<close> and \<open>/\<close> to \<open>_\<close> and every other character to itself, so the
  distinct names \<open>@foo/bar\<close> and \<open>_foo_bar\<close> have one sandbox path; after an extraction for
  the first has resolved, an extraction for the second leaves in that directory only
  what the second download unpacks.
\<close>

theorem sanitizedName_collision:
  assumes run1: "downloadAndExtract tar_extract get1 tempDir url1 ''@foo/bar'' fs0 = (Inr p, fs1)"
    and run2: "downloadAndExtract tar_extract get2 tempDir url2 ''_foo_bar'' fs1 = (r2, fs2)"
  shows "''@foo/bar'' \<noteq> ''_foo_bar''
       \<and> sanitizedName ''@foo/bar'' = sanitizedName ''_foo_bar''
       \<and> sanitizedName packageName
           = map (\<lambda>c. if c = CHR ''@'' \<or> c = CHR ''/'' then CHR ''_'' else c) packageName
       \<and> p = fst (extractPath tempDir ''_foo_bar'')
       \<and> lookup p fs1 = Some (Dir (unpacked tar_extract (get1 url1)))
       \<and> lookup p fs2 = Some (Dir (unpacked tar_extract (get2 url2)))"
proof -
  from run_resolved [OF run1] have p: "p = fst (extractPath tempDir ''@foo/bar'')"
    and ne: "p \<noteq> []"
    and l1: "lookup p fs1 = Some (Dir (unpacked tar_extract (get1 url1)))" by blast+
  have p': "p = fst (extractPath tempDir ''_foo_bar'')"
    using p by (simp add: extractPath_collision)
  have "Dir (unpacked tar_extract (get1 url1)) \<noteq> Unstatable" by simp
  from sandbox_after_run [OF p' ne l1 this, where tar_extract = tar_extract and https_get = get2
      and tarballUrl = url2] run2
  have l2: "lookup p fs2 = Some (Dir (unpacked tar_extract (get2 url2)))" by simp
  have "''@foo/bar'' \<noteq> ''_foo_bar''" by simp
  moreover have "sanitizedName ''@foo/bar'' = sanitizedName ''_foo_bar''"
    by (simp add: sanitizedName_def)
  moreover have "sanitizedName packageName
           = map (\<lambda>c. if c = CHR ''@'' \<or> c = CHR ''/'' then CHR ''_'' else c) packageName"
    by (simp add: sanitizedName_def)
  ultimately show ?thesis using p' l1 l2 by simp
qed

theorem sanitizedName_collision_witness:
  "downloadAndExtract flat_tar (serve [(''scoped.js'', ''1'')]) [''srv'', ''temp''] ''u1'' ''@foo/bar'' temp_tree
     = (Inr [''srv'', ''temp'', ''_foo_bar''],
        Dir [(''srv'', Dir [(''temp'', Dir [(''_foo_bar'', Dir [(''scoped.js'', RegularFile (Inr ''1''))])])])])
   \<and> snd (downloadAndExtract flat_tar (serve [(''plain.js'', ''2'')]) [''srv'', ''temp''] ''u2'' ''_foo_bar''
        (Dir [(''srv'', Dir [(''temp'', Dir [(''_foo_bar'', Dir [(''scoped.js'', RegularFile (Inr ''1''))])])])]))
     = Dir [(''srv'', Dir [(''temp'', Dir [(''_foo_bar'', Dir [(''plain.js'', RegularFile (Inr ''2''))])])])]
   \<and> lookup [''srv'', ''temp'', ''_foo_bar'']
        (Dir [(''srv'', Dir [(''temp'', Dir [(''_foo_bar'', Dir [(''plain.js'', RegularFile (Inr ''2''))])])])])
     = Some (Dir (unpacked flat_tar (serve [(''plain.js'', ''2'')] ''u2'')))
   \<and> lookup [''srv'', ''temp'', ''_foo_bar'', ''scoped.js'']
        (Dir [(''srv'', Dir [(''temp'', Dir [(''_foo_bar'', Dir [(''plain.js'', RegularFile (Inr ''2''))])])])])
     = None"
proof -
  let ?fs1 = "Dir [(''srv'', Dir [(''temp'', Dir [(''_foo_bar'', Dir [(''scoped.js'', RegularFile (Inr ''1''))])])])]"
  let ?fs2 = "Dir [(''srv'', Dir [(''temp'', Dir [(''_foo_bar'', Dir [(''plain.js'', RegularFile (Inr ''2''))])])])]"
  have r1: "downloadAndExtract flat_tar (serve [(''scoped.js'', ''1'')]) [''srv'', ''temp''] ''u1'' ''@foo/bar'' temp_tree
     = (Inr [''srv'', ''temp'', ''_foo_bar''], ?fs1)"
    by (simp add: downloadAndExtract_def extractPath_def sanitizedName_def path_join_def normalize_def
      normalizeStep_def existsSync_def resolve_def temp_tree_def serve_def flat_tar_def Let_def)
  have r2: "downloadAndExtract flat_tar (serve [(''plain.js'', ''2'')]) [''srv'', ''temp''] ''u2'' ''_foo_bar'' ?fs1
     = (Inr [''srv'', ''temp'', ''_foo_bar''], ?fs2)"
    by (simp add: downloadAndExtract_def extractPath_def sanitizedName_def path_join_def normalize_def
      normalizeStep_def existsSync_def resolve_def rmSync_def serve_def flat_tar_def Let_def)
  have l: "lookup [''srv'', ''temp'', ''_foo_bar''] ?fs2
     = Some (Dir (unpacked flat_tar (serve [(''plain.js'', ''2'')] ''u2'')))"
    by (rule sanitizedName_collision [OF r1 r2, THEN conjunct2, THEN conjunct2, THEN conjunct2,
          THEN conjunct2, THEN conjunct2])
  have gone: "lookup [''srv'', ''temp'', ''_foo_bar'', ''scoped.js''] ?fs2 = None" by simp
  have s2: "snd (downloadAndExtract flat_tar (serve [(''plain.js'', ''2'')]) [''srv'', ''temp''] ''u2'' ''_foo_bar'' ?fs1) = ?fs2"
    using r2 by simp
  from r1 s2 l gone show ?thesis by (intro conjI)
qed


end
